theory Spec2Isabelle
  imports Main "HOL-Library.Char_ord" "HOL-Library.List_Lexorder" "HOL-Library.Multiset"
begin

section \<open>The music21 objects that \<^verbatim>\<open>music21/braille/translate.py\<close> inspects\<close>

text \<open>
  \<^verbatim>\<open>translate.py\<close> dispatches on the class of the object it is given
  (\<^verbatim>\<open>isinstance\<close>), reads the direct elements of a stream
  (\<^verbatim>\<open>getElementsByClass\<close>) and the \<^verbatim>\<open>_workIds\<close> dictionary of a
  \<^verbatim>\<open>Metadata\<close> object.  The classes themselves are declared in
  \<^verbatim>\<open>music21.stream\<close>, \<^verbatim>\<open>music21.tinyNotation\<close> and
  \<^verbatim>\<open>music21.metadata\<close>; the model keeps of them what the module reads.
\<close>

datatype streamClass =
  Stream | Part | PartStaff | Measure | Score | Opus | TinyNotationStream
  | OtherStream string

text \<open>
  The class hierarchy, declared outside the module: every class above derives from
  \<^verbatim>\<open>Stream\<close>, \<^verbatim>\<open>PartStaff\<close> derives from \<^verbatim>\<open>Part\<close>, and
  \<^verbatim>\<open>TinyNotationStream\<close> derives from \<^verbatim>\<open>Stream\<close> directly, which is why
  \<^verbatim>\<open>streamToBraille\<close> tests for it next to \<^verbatim>\<open>Part\<close>.
  \<open>OtherStream\<close> stands for any further class that derives from \<^verbatim>\<open>Stream\<close>
  directly, such as \<^verbatim>\<open>Voice\<close>.
\<close>

definition issubclass :: "streamClass \<Rightarrow> streamClass \<Rightarrow> bool" where
  "issubclass c k = (k = Stream \<or> c = k \<or> (c = PartStaff \<and> k = Part))"

text \<open>
  A music21 object is a stream (its class and its elements, in order), a
  \<^verbatim>\<open>Metadata\<close> object (its \<^verbatim>\<open>_workIds\<close>: work-id key and value, the value
  \<open>None\<close> when unset and otherwise as \<^verbatim>\<open>format\<close> renders it, in the dictionary's
  iteration order), or any other object, of which the module only needs to know that it
  is not a stream: a dynamic with its textual name, a barline with its style, or any
  other musical element.  Text is a \<open>string\<close>: the characters of a Python string in
  UTF-8, so that the order on strings is the order of Python's \<^verbatim>\<open>sorted\<close>.
\<close>

datatype m21obj =
    StreamObj streamClass "m21obj list"
  | MetadataObj "(string \<times> string option) list"
  | Dynamic string
  | Barline string
  | Element string

datatype classRef = StreamClass streamClass | MetadataClass

fun isinstance :: "m21obj \<Rightarrow> classRef \<Rightarrow> bool" where
  "isinstance (StreamObj c es) (StreamClass k) = issubclass c k"
| "isinstance (MetadataObj w) MetadataClass = True"
| "isinstance obj k = False"

text \<open>
  The module reads the elements of streams only (\<^verbatim>\<open>objectToBraille\<close> tests for
  \<^verbatim>\<open>Stream\<close> first); the properties below that read them are stated for streams.
\<close>

fun elements :: "m21obj \<Rightarrow> m21obj list" where
  "elements (StreamObj c es) = es"
| "elements obj = []"

definition getElementsByClass :: "m21obj \<Rightarrow> classRef \<Rightarrow> m21obj list" where
  "getElementsByClass s k = filter (\<lambda>e. isinstance e k) (elements s)"

fun workIds :: "m21obj \<Rightarrow> (string \<times> string option) list" where
  "workIds (MetadataObj w) = w"
| "workIds obj = []"

section \<open>Keyword arguments\<close>

text \<open>
  Every function takes \<^verbatim>\<open>**keywords\<close>: a dictionary from option names to Python
  values.  \<^verbatim>\<open>if not inPlace\<close> tests the truth value of whatever the caller passed.
\<close>

datatype kwvalue = KNone | KBool bool | KInt int | KStr string | KList "kwvalue list"

type_synonym kwargs = "string \<Rightarrow> kwvalue option"

fun truthy :: "kwvalue \<Rightarrow> bool" where
  "truthy KNone = False"
| "truthy (KBool b) = b"
| "truthy (KInt i) = (i \<noteq> 0)"
| "truthy (KStr s) = (s \<noteq> [])"
| "truthy (KList xs) = (xs \<noteq> [])"

definition kwargs_get :: "kwargs \<Rightarrow> string \<Rightarrow> kwvalue \<Rightarrow> kwvalue" where
  "kwargs_get kw k d = (case kw k of None \<Rightarrow> d | Some v \<Rightarrow> v)"

definition translateArgs :: "kwargs \<Rightarrow> kwvalue \<times> kwvalue" where
  "translateArgs kw =
     (kwargs_get kw ''inPlace'' (KBool False), kwargs_get kw ''debug'' (KBool False))"

section \<open>Exceptions and the collaborators outside the module\<close>

text \<open>
  \<^verbatim>\<open>BrailleTranslateException\<close> is the one exception the module raises itself;
  \<open>CollaboratorException\<close> stands for whatever a collaborator raises.
\<close>

datatype exception = BrailleTranslateException string | CollaboratorException string

text \<open>
  \<^verbatim>\<open>translate.py\<close> calls into code it does not contain:
  \<^verbatim>\<open>Stream.makeNotation(cautionaryNotImmediateRepeat=False)\<close>, which returns a
  renotated copy; \<^verbatim>\<open>segment.findSegments\<close>; \<^verbatim>\<open>BrailleSegment.transcribe\<close>
  and \<^verbatim>\<open>str\<close> of a segment; the constructor \<^verbatim>\<open>segment.BrailleGrandSegment\<close>,
  its attribute \<^verbatim>\<open>transcription\<close> and its \<^verbatim>\<open>str\<close>.  They are parameters of
  the model, each free to raise, over arbitrary types of segments and grand segments.
\<close>

record ('seg, 'gseg) collaborators =
  makeNotation :: "m21obj \<Rightarrow> exception + m21obj"
  findSegments :: "m21obj \<Rightarrow> kwargs \<Rightarrow> exception + 'seg list"
  transcribe :: "'seg \<Rightarrow> exception + string"
  segmentStr :: "'seg \<Rightarrow> exception + string"
  BrailleGrandSegment :: "'seg \<Rightarrow> 'seg \<Rightarrow> exception + 'gseg"
  transcription :: "'gseg \<Rightarrow> exception + string"
  grandSegmentStr :: "'gseg \<Rightarrow> exception + string"

section \<open>Text\<close>

definition newline :: string where
  "newline = [CHR 0x0A]"

text \<open>\<^verbatim>\<open>sep.join(xs)\<close>\<close>

fun str_join :: "string \<Rightarrow> string list \<Rightarrow> string" where
  "str_join sep [] = []"
| "str_join sep [x] = x"
| "str_join sep (x # y # ys) = x @ sep @ str_join sep (y # ys)"

section \<open>\<^verbatim>\<open>partToBraille\<close>\<close>

text \<open>
  The loop over \<^verbatim>\<open>allSegments\<close>: \<^verbatim>\<open>transcribe()\<close> is called on every segment,
  also under \<^verbatim>\<open>debug\<close>, where its result is dropped and \<^verbatim>\<open>str\<close> of the segment
  is appended instead.
\<close>

fun partToBraille_loop ::
  "('seg, 'gseg) collaborators \<Rightarrow> kwvalue \<Rightarrow> 'seg list \<Rightarrow> string list \<Rightarrow> exception + string list"
where
  "partToBraille_loop c debug [] allBrailleText = Inr allBrailleText"
| "partToBraille_loop c debug (brailleSegment # rest) allBrailleText =
     (case transcribe c brailleSegment of
        Inl e \<Rightarrow> Inl e
      | Inr t \<Rightarrow>
          if \<not> truthy debug then partToBraille_loop c debug rest (allBrailleText @ [t])
          else (case segmentStr c brailleSegment of
                  Inl e \<Rightarrow> Inl e
                | Inr s \<Rightarrow> partToBraille_loop c debug rest (allBrailleText @ [s])))"

definition partToBraille ::
  "('seg, 'gseg) collaborators \<Rightarrow> m21obj \<Rightarrow> kwargs \<Rightarrow> exception + string"
where
  "partToBraille c music21Part kw =
     (case translateArgs kw of (inPlace, debug) \<Rightarrow>
      (case (if \<not> truthy inPlace then makeNotation c music21Part else Inr music21Part) of
         Inl e \<Rightarrow> Inl e
       | Inr partToTranscribe \<Rightarrow>
          (case findSegments c partToTranscribe kw of
             Inl e \<Rightarrow> Inl e
           | Inr allSegments \<Rightarrow>
              (case partToBraille_loop c debug allSegments [] of
                 Inl e \<Rightarrow> Inl e
               | Inr allBrailleText \<Rightarrow> Inr (str_join newline allBrailleText)))))"

section \<open>\<^verbatim>\<open>keyboardPartsToBraille\<close>\<close>

text \<open>The loop over \<^verbatim>\<open>zip(rhSegments, lhSegments)\<close>.\<close>

fun keyboardPartsToBraille_loop ::
  "('seg, 'gseg) collaborators \<Rightarrow> kwvalue \<Rightarrow> ('seg \<times> 'seg) list \<Rightarrow> string list
     \<Rightarrow> exception + string list"
where
  "keyboardPartsToBraille_loop c debug [] allBrailleText = Inr allBrailleText"
| "keyboardPartsToBraille_loop c debug ((rhSegment, lhSegment) # rest) allBrailleText =
     (case BrailleGrandSegment c rhSegment lhSegment of
        Inl e \<Rightarrow> Inl e
      | Inr bg \<Rightarrow>
          (case (if \<not> truthy debug then transcription c bg else grandSegmentStr c bg) of
             Inl e \<Rightarrow> Inl e
           | Inr t \<Rightarrow> keyboardPartsToBraille_loop c debug rest (allBrailleText @ [t])))"

definition keyboardPartsToBraille ::
  "('seg, 'gseg) collaborators \<Rightarrow> m21obj \<Rightarrow> m21obj \<Rightarrow> kwargs \<Rightarrow> exception + string"
where
  "keyboardPartsToBraille c music21PartStaffUpper music21PartStaffLower kw =
     (case translateArgs kw of (inPlace, debug) \<Rightarrow>
      (case (if \<not> truthy inPlace then makeNotation c music21PartStaffUpper
             else Inr music21PartStaffUpper) of
         Inl e \<Rightarrow> Inl e
       | Inr upperPartToTranscribe \<Rightarrow>
      (case (if \<not> truthy inPlace then makeNotation c music21PartStaffLower
             else Inr music21PartStaffLower) of
         Inl e \<Rightarrow> Inl e
       | Inr lowerPartToTranscribe \<Rightarrow>
      (case findSegments c upperPartToTranscribe kw of
         Inl e \<Rightarrow> Inl e
       | Inr rhSegments \<Rightarrow>
      (case findSegments c lowerPartToTranscribe kw of
         Inl e \<Rightarrow> Inl e
       | Inr lhSegments \<Rightarrow>
      (case keyboardPartsToBraille_loop c debug (zip rhSegments lhSegments) [] of
         Inl e \<Rightarrow> Inl e
       | Inr allBrailleText \<Rightarrow> Inr (str_join newline allBrailleText)))))))"

section \<open>\<^verbatim>\<open>measureToBraille\<close>\<close>

definition measureToBraille ::
  "('seg, 'gseg) collaborators \<Rightarrow> m21obj \<Rightarrow> kwargs \<Rightarrow> exception + string"
where
  "measureToBraille c music21Measure kw =
     (case translateArgs kw of (inPlace, unused_debug) \<Rightarrow>
      (let kw1 = (if kw ''showHeading'' = None
                  then kw(''showHeading'' \<mapsto> KBool False) else kw);
           kw2 = (if kw1 ''showFirstMeasureNumber'' = None
                  then kw1(''showFirstMeasureNumber'' \<mapsto> KBool False) else kw1)
       in (case (if \<not> truthy inPlace then makeNotation c music21Measure
                 else Inr music21Measure) of
             Inl e \<Rightarrow> Inl e
           | Inr measureToTranscribe \<Rightarrow>
               partToBraille c (StreamObj Part [measureToTranscribe])
                 (kw2(''inPlace'' \<mapsto> KBool True)))))"

section \<open>\<^verbatim>\<open>metadataToString\<close>\<close>

definition upperLetters :: string where
  "upperLetters = ''ABCDEFGHIJKLMNOPQRSTUVWXYZ''"

definition lowerLetters :: string where
  "lowerLetters = ''abcdefghijklmnopqrstuvwxyz''"

definition isUpper :: "char \<Rightarrow> bool" where
  "isUpper ch = (ch \<in> set upperLetters)"

definition isLower :: "char \<Rightarrow> bool" where
  "isLower ch = (ch \<in> set lowerLetters)"

definition toUpper :: "char \<Rightarrow> char" where
  "toUpper ch = (case map_of (zip lowerLetters upperLetters) ch of None \<Rightarrow> ch | Some u \<Rightarrow> u)"

definition toLower :: "char \<Rightarrow> char" where
  "toLower ch = (case map_of (zip upperLetters lowerLetters) ch of None \<Rightarrow> ch | Some l \<Rightarrow> l)"

text \<open>
  \<^verbatim>\<open>re.findall(r"([A-Z]*[a-z]+)", key)\<close>: the matches, left to right and not
  overlapping.  At a position the pattern matches exactly when the longest run of
  capitals there is followed by a lower-case letter (a shorter run of capitals would be
  followed by a capital), and the match is that run with the longest run of lower-case
  letters after it; where it does not match, the scan moves on by one character.
\<close>

function findall :: "string \<Rightarrow> string list" where
  "findall [] = []"
| "findall (ch # cs) =
     (if takeWhile isLower (dropWhile isUpper (ch # cs)) \<noteq> []
      then (takeWhile isUpper (ch # cs) @ takeWhile isLower (dropWhile isUpper (ch # cs)))
             # findall (dropWhile isLower (dropWhile isUpper (ch # cs)))
      else findall cs)"
  by pat_completeness auto
termination
proof (relation "measure length")
  show "wf (measure length)" by simp
next
  fix ch :: char and cs :: string
  assume nonempty: "takeWhile isLower (dropWhile isUpper (ch # cs)) \<noteq> []"
  have shorter: "length (dropWhile isLower (dropWhile isUpper s)) < length s"
    if "takeWhile isLower (dropWhile isUpper s) \<noteq> []" for s :: string
  proof -
    have "length (takeWhile isLower (dropWhile isUpper s))
            + length (dropWhile isLower (dropWhile isUpper s))
          = length (dropWhile isUpper s)"
      by (metis length_append takeWhile_dropWhile_id)
    moreover have "length (dropWhile isUpper s) \<le> length s"
      by (rule length_dropWhile_le)
    moreover have "0 < length (takeWhile isLower (dropWhile isUpper s))"
      using that by simp
    ultimately show ?thesis by linarith
  qed
  show "(dropWhile isLower (dropWhile isUpper (ch # cs)), ch # cs) \<in> measure length"
    unfolding in_measure by (rule shorter [OF nonempty])
next
  fix ch :: char and cs :: string
  show "(cs, ch # cs) \<in> measure length" by simp
qed

text \<open>
  \<^verbatim>\<open>str.title()\<close>: a cased character that follows an uncased one (or starts the
  string) is made upper case, a cased character that follows a cased one lower case.
  The flag is Python's \<^verbatim>\<open>previous_is_cased\<close>.
\<close>

fun title_from :: "bool \<Rightarrow> string \<Rightarrow> string" where
  "title_from previous_is_cased [] = []"
| "title_from previous_is_cased (ch # cs) =
     (if isLower ch then (if previous_is_cased then ch else toUpper ch) # title_from True cs
      else if isUpper ch then (if previous_is_cased then toLower ch else ch) # title_from True cs
      else ch # title_from False cs)"

definition title :: "string \<Rightarrow> string" where
  "title s = title_from False s"

text \<open>
  The line for a key whose value is not \<open>None\<close>:
  \<^verbatim>\<open>n = u" ".join(re.findall(r"([A-Z]*[a-z]+)", key))\<close> and
  \<^verbatim>\<open>"{0}: {1}".format(n.title(), value)\<close>.
\<close>

definition workIdLine :: "string \<Rightarrow> string \<Rightarrow> string" where
  "workIdLine key v = title (str_join '' '' (findall key)) @ '': '' @ v"

text \<open>The loop over \<^verbatim>\<open>music21Metadata._workIds\<close>.\<close>

fun metadataToString_loop :: "(string \<times> string option) list \<Rightarrow> string list \<Rightarrow> string list" where
  "metadataToString_loop [] allBrailleLines = allBrailleLines"
| "metadataToString_loop ((key, None) # rest) allBrailleLines =
     metadataToString_loop rest allBrailleLines"
| "metadataToString_loop ((key, Some v) # rest) allBrailleLines =
     metadataToString_loop rest (allBrailleLines @ [workIdLine key v])"

definition metadataToString :: "m21obj \<Rightarrow> string" where
  "metadataToString music21Metadata =
     str_join newline (sort (metadataToString_loop (workIds music21Metadata) []))"

section \<open>\<^verbatim>\<open>scoreToBraille\<close> and \<^verbatim>\<open>opusToBraille\<close>\<close>

fun scoreToBraille_metadata :: "m21obj list \<Rightarrow> string list \<Rightarrow> string list" where
  "scoreToBraille_metadata [] allBrailleLines = allBrailleLines"
| "scoreToBraille_metadata (music21Metadata # rest) allBrailleLines =
     scoreToBraille_metadata rest (allBrailleLines @ [metadataToString music21Metadata])"

fun scoreToBraille_parts ::
  "('seg, 'gseg) collaborators \<Rightarrow> kwargs \<Rightarrow> m21obj list \<Rightarrow> string list \<Rightarrow> exception + string list"
where
  "scoreToBraille_parts c kw [] allBrailleLines = Inr allBrailleLines"
| "scoreToBraille_parts c kw (p # rest) allBrailleLines =
     (case partToBraille c p kw of
        Inl e \<Rightarrow> Inl e
      | Inr braillePart \<Rightarrow> scoreToBraille_parts c kw rest (allBrailleLines @ [braillePart]))"

definition scoreToBraille ::
  "('seg, 'gseg) collaborators \<Rightarrow> m21obj \<Rightarrow> kwargs \<Rightarrow> exception + string"
where
  "scoreToBraille c music21Score kw =
     (case scoreToBraille_parts c kw (getElementsByClass music21Score (StreamClass Part))
             (scoreToBraille_metadata (getElementsByClass music21Score MetadataClass) []) of
        Inl e \<Rightarrow> Inl e
      | Inr allBrailleLines \<Rightarrow> Inr (str_join newline allBrailleLines))"

fun opusToBraille_loop ::
  "('seg, 'gseg) collaborators \<Rightarrow> kwargs \<Rightarrow> m21obj list \<Rightarrow> string list \<Rightarrow> exception + string list"
where
  "opusToBraille_loop c kw [] allBrailleLines = Inr allBrailleLines"
| "opusToBraille_loop c kw (score # rest) allBrailleLines =
     (case scoreToBraille c score kw of
        Inl e \<Rightarrow> Inl e
      | Inr t \<Rightarrow> opusToBraille_loop c kw rest (allBrailleLines @ [t]))"

definition opusToBraille ::
  "('seg, 'gseg) collaborators \<Rightarrow> m21obj \<Rightarrow> kwargs \<Rightarrow> exception + string"
where
  "opusToBraille c music21Opus kw =
     (case opusToBraille_loop c kw (getElementsByClass music21Opus (StreamClass Score)) [] of
        Inl e \<Rightarrow> Inl e
      | Inr allBrailleLines \<Rightarrow> Inr (str_join (newline @ newline) allBrailleLines))"

section \<open>\<^verbatim>\<open>streamToBraille\<close> and \<^verbatim>\<open>objectToBraille\<close>\<close>

definition streamToBraille ::
  "('seg, 'gseg) collaborators \<Rightarrow> m21obj \<Rightarrow> kwargs \<Rightarrow> exception + string"
where
  "streamToBraille c music21Stream kw =
     (if isinstance music21Stream (StreamClass Part)
         \<or> isinstance music21Stream (StreamClass TinyNotationStream)
      then partToBraille c music21Stream kw
      else if isinstance music21Stream (StreamClass Measure)
      then measureToBraille c music21Stream kw
      else (let keyboardParts = getElementsByClass music21Stream (StreamClass PartStaff)
            in if length keyboardParts = 2
               then keyboardPartsToBraille c (keyboardParts ! 0) (keyboardParts ! 1) kw
               else if isinstance music21Stream (StreamClass Score)
               then scoreToBraille c music21Stream kw
               else if isinstance music21Stream (StreamClass Opus)
               then opusToBraille c music21Stream kw
               else Inl (BrailleTranslateException ''Stream cannot be translated to Braille.'')))"

definition objectToBraille ::
  "('seg, 'gseg) collaborators \<Rightarrow> m21obj \<Rightarrow> kwargs \<Rightarrow> exception + string"
where
  "objectToBraille c music21Obj kw =
     (if isinstance music21Obj (StreamClass Stream)
      then streamToBraille c music21Obj kw
      else measureToBraille c (StreamObj Measure [music21Obj]) (kw(''inPlace'' \<mapsto> KBool True)))"

section \<open>Names for parts of the functions, used to state their properties\<close>

text \<open>
  What one turn of the loop of \<^verbatim>\<open>partToBraille\<close> appends for a segment, and what
  one turn of the loop of \<^verbatim>\<open>keyboardPartsToBraille\<close> appends for a pair of segments.
\<close>

definition segmentText ::
  "('seg, 'gseg) collaborators \<Rightarrow> kwvalue \<Rightarrow> 'seg \<Rightarrow> exception + string"
where
  "segmentText c debug brailleSegment =
     (case transcribe c brailleSegment of
        Inl e \<Rightarrow> Inl e
      | Inr t \<Rightarrow> if \<not> truthy debug then Inr t else segmentStr c brailleSegment)"

definition grandSegmentText ::
  "('seg, 'gseg) collaborators \<Rightarrow> kwvalue \<Rightarrow> 'seg \<Rightarrow> 'seg \<Rightarrow> exception + string"
where
  "grandSegmentText c debug rhSegment lhSegment =
     (case BrailleGrandSegment c rhSegment lhSegment of
        Inl e \<Rightarrow> Inl e
      | Inr bg \<Rightarrow> if \<not> truthy debug then transcription c bg else grandSegmentStr c bg)"

text \<open>
  The statements of \<^verbatim>\<open>partToBraille\<close> after the renotation, applied to the part
  that is transcribed: \<^verbatim>\<open>findSegments\<close>, the loop and the join.
\<close>

definition transcribeAsIs ::
  "('seg, 'gseg) collaborators \<Rightarrow> m21obj \<Rightarrow> kwargs \<Rightarrow> exception + string"
where
  "transcribeAsIs c partToTranscribe kw =
     (case findSegments c partToTranscribe kw of
        Inl e \<Rightarrow> Inl e
      | Inr allSegments \<Rightarrow>
          (case partToBraille_loop c (snd (translateArgs kw)) allSegments [] of
             Inl e \<Rightarrow> Inl e
           | Inr allBrailleText \<Rightarrow> Inr (str_join newline allBrailleText)))"

text \<open>A word with its first character in upper case and the others in lower case.\<close>

definition capitalize :: "string \<Rightarrow> string" where
  "capitalize w = (case w of [] \<Rightarrow> [] | ch # cs \<Rightarrow> toUpper ch # map toLower cs)"

section \<open>The transcription engine of the spec\<close>

text \<open>
  Modelled from the spec: a segment (spec 3) as the segmenter hands it to the segment
  transcriber.  \<^verbatim>\<open>music21.braille.segment\<close> is not part of the sources.  A segment
  holds a run of measures, the configuration of the call, its pair of flags
  \<^verbatim>\<open>showHeading\<close> and \<^verbatim>\<open>showFirstMeasureNumber\<close>, and the number of
  placeholder rests to put in front (\<^verbatim>\<open>dummyRestLength\<close>, spec 4.2 step 4).
\<close>

record segment =
  segmentMeasures :: "m21obj list"
  segmentKeywords :: kwargs
  showHeading :: bool
  showFirstMeasureNumber :: bool
  dummyRests :: nat

text \<open>
  Modelled from the spec: what the spec names without fixing it, taken as parameters
  of the engine.  These are the glyphs (the dynamics introducer, the unit for a character
  of a dynamic's name, the placeholder rest, the measure number of a measure, the hand
  sign, the barline glyph for a style of barline), the composition of the heading line
  from the events of a segment, the encoding of every event other than a dynamic and a
  barline with the encoding state it threads (spec 4.1), the conditions (a) to (c) of
  spec 4.2 that force a boundary before a measure, the symbolic trace returned under
  \<^verbatim>\<open>debug\<close>, and the renotation collaborator.
\<close>

record 'st engineTables =
  dynamicsIntroducer :: string
  dynamicUnit :: "char \<Rightarrow> string"
  dummyRest :: string
  measureNumber :: "m21obj \<Rightarrow> string"
  handSign :: "kwvalue \<Rightarrow> string"
  barlineGlyph :: "string \<Rightarrow> string"
  heading :: "kwargs \<Rightarrow> m21obj list \<Rightarrow> string"
  encodeOther :: "kwargs \<Rightarrow> 'st \<Rightarrow> m21obj \<Rightarrow> exception + string \<times> 'st"
  initialState :: 'st
  boundaryBefore :: "kwargs \<Rightarrow> m21obj list \<Rightarrow> m21obj \<Rightarrow> bool"
  debugTrace :: "segment \<Rightarrow> exception + string"
  renotation :: "m21obj \<Rightarrow> exception + m21obj"

text \<open>
  Modelled from the spec: the Symbol Encoder (spec 4.1), called once per event in
  order, threading one encoding state.  A dynamic is encoded as the dynamics introducer
  (spec 8) followed by one unit per character of its textual name.  A barline is not
  encoded in place: the segment transcriber renders the last one at the end of the
  segment (spec 4.3).  Every other event is encoded by the table, which may signal an
  encoding error; that aborts the segment.
\<close>

fun encodeEvents :: "'st engineTables \<Rightarrow> kwargs \<Rightarrow> 'st \<Rightarrow> m21obj list \<Rightarrow> exception + string" where
  "encodeEvents T kw st [] = Inr []"
| "encodeEvents T kw st (Dynamic name # events) =
     (case encodeEvents T kw st events of
        Inl e \<Rightarrow> Inl e
      | Inr rest \<Rightarrow> Inr (dynamicsIntroducer T @ concat (map (dynamicUnit T) name) @ rest))"
| "encodeEvents T kw st (Barline style # events) = encodeEvents T kw st events"
| "encodeEvents T kw st (event # events) =
     (case encodeOther T kw st event of
        Inl e \<Rightarrow> Inl e
      | Inr (glyphs, st') \<Rightarrow>
          (case encodeEvents T kw st' events of
             Inl e \<Rightarrow> Inl e
           | Inr rest \<Rightarrow> Inr (glyphs @ rest)))"

text \<open>Modelled from the spec: the style of the last barline event of a segment (spec 4.3).\<close>

fun lastBarline :: "m21obj list \<Rightarrow> string option" where
  "lastBarline [] = None"
| "lastBarline (Barline style # events) =
     (case lastBarline events of None \<Rightarrow> Some style | Some later \<Rightarrow> Some later)"
| "lastBarline (event # events) = lastBarline events"

text \<open>
  Modelled from the spec: the Segment Transcriber (spec 4.3).  If \<^verbatim>\<open>showHeading\<close>,
  a heading line comes first.  The line of music is, in this order: the measure number
  of the first measure if \<^verbatim>\<open>showFirstMeasureNumber\<close>; the hand sign if
  \<^verbatim>\<open>showHand\<close> is \<^verbatim>\<open>"right"\<close> or \<^verbatim>\<open>"left"\<close>; the placeholder rests; the
  events of the measures, encoded in order with one encoding state for the segment; the
  glyph of the last barline event, if there is one.  A segment is bounded by the line
  length (spec 4.2), so its music is one line.
\<close>

definition specTranscribe :: "'st engineTables \<Rightarrow> segment \<Rightarrow> exception + string" where
  "specTranscribe T seg =
     (let events = concat (map elements (segmentMeasures seg));
          kw = segmentKeywords seg
      in case encodeEvents T kw (initialState T) events of
           Inl e \<Rightarrow> Inl e
         | Inr music \<Rightarrow>
             Inr ((if showHeading seg then heading T kw events @ newline else [])
                  @ (if showFirstMeasureNumber seg
                     then (case segmentMeasures seg of [] \<Rightarrow> [] | m # ms \<Rightarrow> measureNumber T m)
                     else [])
                  @ (case kw ''showHand'' of
                       None \<Rightarrow> []
                     | Some hand \<Rightarrow>
                         if hand = KStr ''right'' \<or> hand = KStr ''left'' then handSign T hand
                         else [])
                  @ concat (replicate (dummyRests seg) (dummyRest T))
                  @ music
                  @ (case lastBarline events of
                       None \<Rightarrow> []
                     | Some style \<Rightarrow> barlineGlyph T style)))"

text \<open>
  Modelled from the spec: the walk of the Segmenter over the measures of a part
  (spec 4.2, steps 1 and 2).  A boundary is placed before a measure when the conditions
  say so and the current segment is not empty, so that a single measure is never split
  and always gives a segment.  Breaks in the middle of a measure are not modelled.
\<close>

fun groupMeasures ::
  "(m21obj list \<Rightarrow> m21obj \<Rightarrow> bool) \<Rightarrow> m21obj list \<Rightarrow> m21obj list \<Rightarrow> m21obj list list"
where
  "groupMeasures boundary current [] = (if current = [] then [] else [current])"
| "groupMeasures boundary current (m # ms) =
     (if current \<noteq> [] \<and> boundary current m
      then current # groupMeasures boundary [m] ms
      else groupMeasures boundary (current @ [m]) ms)"

text \<open>
  Modelled from the spec: the Segmenter (spec 4.2).  An empty part gives no segment.
  The first segment has \<^verbatim>\<open>showHeading\<close> as configured (default true) and carries
  the placeholder rests; later segments have no heading.  Every segment has
  \<^verbatim>\<open>showFirstMeasureNumber\<close> as configured (default true).  A part that is asked to
  be transcribed in place and holds elements but no measure is a precondition error
  (spec 7).
\<close>

definition specFindSegments ::
  "'st engineTables \<Rightarrow> m21obj \<Rightarrow> kwargs \<Rightarrow> exception + segment list"
where
  "specFindSegments T part kw =
     (if truthy (kwargs_get kw ''inPlace'' (KBool False))
         \<and> getElementsByClass part (StreamClass Measure) = [] \<and> elements part \<noteq> []
      then Inl (CollaboratorException ''PreconditionError'')
      else Inr
        (case groupMeasures (boundaryBefore T kw) []
                (getElementsByClass part (StreamClass Measure)) of
           [] \<Rightarrow> []
         | first # later \<Rightarrow>
             \<lparr> segmentMeasures = first, segmentKeywords = kw,
               showHeading = truthy (kwargs_get kw ''showHeading'' (KBool True)),
               showFirstMeasureNumber =
                 truthy (kwargs_get kw ''showFirstMeasureNumber'' (KBool True)),
               dummyRests = (case kw ''dummyRestLength'' of
                               Some (KInt n) \<Rightarrow> nat n
                             | _ \<Rightarrow> 0) \<rparr>
             # map (\<lambda>ms.
                     \<lparr> segmentMeasures = ms, segmentKeywords = kw, showHeading = False,
                       showFirstMeasureNumber =
                         truthy (kwargs_get kw ''showFirstMeasureNumber'' (KBool True)),
                       dummyRests = 0 \<rparr>)
                 later))"

text \<open>
  Modelled from the spec: \<^verbatim>\<open>segment.BrailleGrandSegment\<close> is not part of the
  sources.  The spec (3, 4.4) has it pair one upper-staff segment with one lower-staff
  segment and produce one bar-over-bar unit: the upper line(s) first, then the lower
  line(s).
\<close>

definition specBrailleGrandSegment :: "'seg \<Rightarrow> 'seg \<Rightarrow> exception + 'seg \<times> 'seg" where
  "specBrailleGrandSegment upperSegment lowerSegment = Inr (upperSegment, lowerSegment)"

text \<open>
  Modelled from the spec: the attribute \<^verbatim>\<open>transcription\<close> of the grand segment
  (spec 4.4), over the transcription of an upper and of a lower segment.
\<close>

definition specTranscription ::
  "('seg \<Rightarrow> exception + string) \<Rightarrow> ('seg \<Rightarrow> exception + string) \<Rightarrow> 'seg \<times> 'seg
     \<Rightarrow> exception + string"
where
  "specTranscription transcribeUpper transcribeLower bg =
     (case transcribeUpper (fst bg) of
        Inl e \<Rightarrow> Inl e
      | Inr upperLines \<Rightarrow>
          (case transcribeLower (snd bg) of
             Inl e \<Rightarrow> Inl e
           | Inr lowerLines \<Rightarrow> Inr (upperLines @ newline @ lowerLines)))"

text \<open>
  Modelled from the spec: a half of a keyboard pair always shows its hand sign
  (spec 4.3).
\<close>

definition withHand :: "string \<Rightarrow> segment \<Rightarrow> segment" where
  "withHand hand seg = seg \<lparr> segmentKeywords := (segmentKeywords seg)(''showHand'' \<mapsto> KStr hand) \<rparr>"

text \<open>
  Modelled from the spec: the engine of the spec as the collaborators of
  \<^verbatim>\<open>translate.py\<close>.
\<close>

definition specCollaborators ::
  "'st engineTables \<Rightarrow> (segment, segment \<times> segment) collaborators"
where
  "specCollaborators T =
     \<lparr> makeNotation = renotation T,
       findSegments = specFindSegments T,
       transcribe = specTranscribe T,
       segmentStr = debugTrace T,
       BrailleGrandSegment = specBrailleGrandSegment,
       transcription =
         specTranscription (\<lambda>seg. specTranscribe T (withHand ''right'' seg))
           (\<lambda>seg. specTranscribe T (withHand ''left'' seg)),
       grandSegmentStr = specTranscription (debugTrace T) (debugTrace T) \<rparr>"

section \<open>Concrete collaborators and inputs\<close>

text \<open>
  To run the functions on concrete inputs the collaborators need values.  In this
  instance renotation returns its input, every measure of a part is a segment of its
  own, a segment is transcribed as the names of its elements, and a grand segment as its
  upper text, a newline and its lower text.
\<close>

fun sampleText :: "m21obj \<Rightarrow> string" where
  "sampleText (StreamObj c es) = concat (map sampleText es)"
| "sampleText (MetadataObj w) = []"
| "sampleText (Dynamic n) = n"
| "sampleText (Barline s) = ''|''"
| "sampleText (Element n) = n"

definition sampleCollaborators :: "(m21obj, m21obj \<times> m21obj) collaborators" where
  "sampleCollaborators =
     \<lparr> makeNotation = (\<lambda>s. Inr s),
       findSegments = (\<lambda>s kw. Inr (getElementsByClass s (StreamClass Measure))),
       transcribe = (\<lambda>seg. Inr (sampleText seg)),
       segmentStr = (\<lambda>seg. Inr (''<'' @ sampleText seg @ ''>'')),
       BrailleGrandSegment = (\<lambda>rh lh. Inr (rh, lh)),
       transcription = (\<lambda>bg. Inr (sampleText (fst bg) @ newline @ sampleText (snd bg))),
       grandSegmentStr =
         (\<lambda>bg. Inr (''<'' @ sampleText (fst bg) @ ''/'' @ sampleText (snd bg) @ ''>'')) \<rparr>"

text \<open>Inputs for the runs below.\<close>

definition sampleOpus :: m21obj where
  "sampleOpus =
     StreamObj Opus
       [StreamObj Score [StreamObj Part [StreamObj Measure [Element ''a'']]],
        Element ''x'',
        StreamObj Score [MetadataObj [(''title'', Some ''T'')],
                         StreamObj Part [StreamObj Measure [Element ''b'', Element ''c'']]]]"

text \<open>
  A second instance, whose renotation does something that shows: it gathers the
  elements of the part into one measure.
\<close>

definition renotatingCollaborators :: "(m21obj, m21obj \<times> m21obj) collaborators" where
  "renotatingCollaborators =
     sampleCollaborators
       \<lparr> makeNotation := (\<lambda>s. Inr (StreamObj Part [StreamObj Measure (elements s)])) \<rparr>"

definition sampleLoosePart :: m21obj where
  "sampleLoosePart = StreamObj Part [Element ''a'', Element ''b'']"

definition sampleScore :: m21obj where
  "sampleScore =
     StreamObj Score
       [MetadataObj [(''title'', Some ''Sonata I''), (''composer'', None),
                     (''movementNumber'', Some ''1''), (''movementName'', Some ''[Movement 1]'')],
        StreamObj Part [StreamObj Measure [Element ''a''], StreamObj Measure [Element ''b'']],
        StreamObj Part [StreamObj Measure [Element ''c'']]]"

definition sampleScoreTwoMetadata :: m21obj where
  "sampleScoreTwoMetadata =
     StreamObj Score
       [MetadataObj [(''title'', Some ''B'')],
        MetadataObj [(''title'', None), (''composer'', Some ''A'')],
        StreamObj Part [StreamObj Measure [Element ''x'']]]"

definition sampleTinyNotationStream :: m21obj where
  "sampleTinyNotationStream =
     StreamObj TinyNotationStream [StreamObj Measure [Element ''C'', Element ''D'']]"

definition samplePartOfStaves :: m21obj where
  "samplePartOfStaves =
     StreamObj Part
       [StreamObj PartStaff [StreamObj Measure [Element ''a'']],
        StreamObj PartStaff [StreamObj Measure [Element ''b'']],
        StreamObj Measure [Element ''c'']]"

definition sampleKeyboardScore :: m21obj where
  "sampleKeyboardScore =
     StreamObj Score
       [MetadataObj [(''title'', Some ''T'')],
        StreamObj PartStaff [StreamObj Measure [Element ''a'']],
        StreamObj PartStaff [StreamObj Measure [Element ''b'']]]"

definition sampleUpperStaff :: m21obj where
  "sampleUpperStaff =
     StreamObj PartStaff [StreamObj Measure [Element ''a''], StreamObj Measure [Element ''b'']]"

definition sampleLowerStaff :: m21obj where
  "sampleLowerStaff = StreamObj PartStaff [StreamObj Measure [Element ''c'']]"

definition sampleMetadata :: m21obj where
  "sampleMetadata =
     MetadataObj [(''title'', Some ''Sonata I''), (''composer'', None), (''number'', Some ''3'')]"

definition sampleMetadataReordered :: m21obj where
  "sampleMetadataReordered =
     MetadataObj [(''number'', Some ''3''), (''title'', Some ''Sonata I''), (''composer'', None)]"

text \<open>
  Tables with the glyphs that the docstring of \<^verbatim>\<open>objectToBraille\<close> shows, in
  UTF-8: for a dynamic the word sign U+281C before the name and the braille letters
  f (U+280B), m (U+280D) and p (U+280F); the number sign U+283C for a measure number; the
  blank cell U+2800 for a heading; the final barline U+2823 U+2805; the rest U+2827.
  The hand signs are U+2828 U+281C for the right and U+2838 U+281C for the left hand.
  The other events are encoded as nothing, and no boundary is forced.
\<close>

definition docstringTables :: "unit engineTables" where
  "docstringTables =
     \<lparr> dynamicsIntroducer = [CHR 0xE2, CHR 0xA0, CHR 0x9C],
       dynamicUnit =
         (\<lambda>ch. if ch = CHR ''f'' then [CHR 0xE2, CHR 0xA0, CHR 0x8B]
               else if ch = CHR ''m'' then [CHR 0xE2, CHR 0xA0, CHR 0x8D]
               else if ch = CHR ''p'' then [CHR 0xE2, CHR 0xA0, CHR 0x8F]
               else []),
       dummyRest = [CHR 0xE2, CHR 0xA0, CHR 0xA7],
       measureNumber = (\<lambda>m. [CHR 0xE2, CHR 0xA0, CHR 0xBC]),
       handSign =
         (\<lambda>hand. if hand = KStr ''right'' then [CHR 0xE2, CHR 0xA0, CHR 0xA8, CHR 0xE2, CHR 0xA0, CHR 0x9C]
                 else if hand = KStr ''left'' then [CHR 0xE2, CHR 0xA0, CHR 0xB8, CHR 0xE2, CHR 0xA0, CHR 0x9C]
                 else []),
       barlineGlyph =
         (\<lambda>style. if style = ''final''
                  then [CHR 0xE2, CHR 0xA0, CHR 0xA3, CHR 0xE2, CHR 0xA0, CHR 0x85] else []),
       heading = (\<lambda>kw events. [CHR 0xE2, CHR 0xA0, CHR 0x80]),
       encodeOther = (\<lambda>kw st event. Inr ([], st)),
       initialState = (),
       boundaryBefore = (\<lambda>kw current m. False),
       debugTrace = (\<lambda>seg. Inr []),
       renotation = (\<lambda>s. Inr s) \<rparr>"

text \<open>Two segments of the engine of the spec, each one measure with a dynamic.\<close>

definition sampleUpperSegment :: segment where
  "sampleUpperSegment =
     \<lparr> segmentMeasures = [StreamObj Measure [Dynamic ''f'']], segmentKeywords = Map.empty,
       showHeading = False, showFirstMeasureNumber = False, dummyRests = 0 \<rparr>"

definition sampleLowerSegment :: segment where
  "sampleLowerSegment =
     \<lparr> segmentMeasures = [StreamObj Measure [Dynamic ''p'']], segmentKeywords = Map.empty,
       showHeading = False, showFirstMeasureNumber = False, dummyRests = 0 \<rparr>"

section \<open>Running the functions on concrete inputs\<close>

lemmas run_defs =
  sampleCollaborators_def getElementsByClass_def issubclass_def translateArgs_def
  kwargs_get_def newline_def partToBraille_def keyboardPartsToBraille_def
  measureToBraille_def workIdLine_def metadataToString_def scoreToBraille_def opusToBraille_def
  streamToBraille_def objectToBraille_def title_def isLower_def isUpper_def
  lowerLetters_def upperLetters_def toUpper_def toLower_def

section \<open>\<^verbatim>\<open>opusToBraille\<close>\<close>

lemma opusToBraille_loop_all_Inr:
  "map (\<lambda>s. scoreToBraille c s kw) scores = map Inr ts
     \<Longrightarrow> opusToBraille_loop c kw scores acc = Inr (acc @ ts)"
proof (induction scores arbitrary: acc ts)
  case Nil
  then show ?case by simp
next
  case (Cons s scores)
  then obtain t ts' where ts: "ts = t # ts'" and t: "scoreToBraille c s kw = Inr t"
    and rest: "map (\<lambda>s. scoreToBraille c s kw) scores = map Inr ts'"
    by (cases ts) auto
  from Cons.IH [OF rest] t ts show ?case by simp
qed

lemma opusToBraille_loop_first_Inl:
  "map (\<lambda>s. scoreToBraille c s kw) scores = map Inr pre @ Inl e # post
     \<Longrightarrow> opusToBraille_loop c kw scores acc = Inl e"
proof (induction pre arbitrary: scores acc)
  case Nil
  then show ?case by (cases scores) auto
next
  case (Cons t pre)
  then obtain s scores' where scores: "scores = s # scores'"
    and t: "scoreToBraille c s kw = Inr t"
    and rest: "map (\<lambda>s. scoreToBraille c s kw) scores' = map Inr pre @ Inl e # post"
    by (cases scores) auto
  from Cons.IH [OF rest] t scores show ?case by simp
qed

text \<open>
  Claim C8.  For every opus (and every other stream), \<^verbatim>\<open>opusToBraille\<close> transcribes the \<^verbatim>\<open>Score\<close> elements of the opus in
  their order with \<^verbatim>\<open>scoreToBraille\<close>.  When every one of them returns a text, the
  result is these texts joined by two newline characters (a blank line between
  consecutive scores); when one of them raises, the first exception raised is the result
  of the call.
\<close>

theorem opusToBraille_blank_line_join:
  assumes "isinstance music21Opus (StreamClass Stream)"
  shows
  "(\<forall>ts. map (\<lambda>s. scoreToBraille c s kw) (getElementsByClass music21Opus (StreamClass Score))
            = map Inr ts
        \<longrightarrow> opusToBraille c music21Opus kw = Inr (str_join [CHR 0x0A, CHR 0x0A] ts))
   \<and> (\<forall>pre e post.
         map (\<lambda>s. scoreToBraille c s kw) (getElementsByClass music21Opus (StreamClass Score))
            = map Inr pre @ Inl e # post
        \<longrightarrow> opusToBraille c music21Opus kw = Inl e)"
  by (simp add: opusToBraille_def opusToBraille_loop_all_Inr opusToBraille_loop_first_Inl
      newline_def)

theorem opusToBraille_blank_line_join_witness:
  "isinstance sampleOpus (StreamClass Opus)
   \<and> map (\<lambda>s. scoreToBraille sampleCollaborators s Map.empty)
       (getElementsByClass sampleOpus (StreamClass Score))
     = map Inr [''a'', ''Title: T'' @ [CHR 0x0A] @ ''bc'']
   \<and> opusToBraille sampleCollaborators sampleOpus Map.empty
     = Inr (''a'' @ [CHR 0x0A, CHR 0x0A] @ ''Title: T'' @ [CHR 0x0A] @ ''bc'')"
proof -
  have scores: "map (\<lambda>s. scoreToBraille sampleCollaborators s Map.empty)
       (getElementsByClass sampleOpus (StreamClass Score))
     = map Inr [''a'', ''Title: T'' @ [CHR 0x0A] @ ''bc'']"
    by (simp add: sampleOpus_def run_defs)
  have opus: "isinstance sampleOpus (StreamClass Opus)"
    by (simp add: sampleOpus_def issubclass_def)
  have stream: "isinstance sampleOpus (StreamClass Stream)"
    by (simp add: sampleOpus_def issubclass_def)
  from scores opusToBraille_blank_line_join [OF stream, of sampleCollaborators Map.empty]
  have "opusToBraille sampleCollaborators sampleOpus Map.empty
     = Inr (str_join [CHR 0x0A, CHR 0x0A] [''a'', ''Title: T'' @ [CHR 0x0A] @ ''bc''])"
    by blast
  with opus scores show ?thesis by simp
qed


section \<open>\<^verbatim>\<open>streamToBraille\<close>\<close>

text \<open>
  Claim C2, as amended.  \<^verbatim>\<open>streamToBraille\<close> raises
  \<^verbatim>\<open>BrailleTranslateException\<close>, and so returns no text, for every stream that is
  not a \<^verbatim>\<open>Part\<close>, not a \<^verbatim>\<open>TinyNotationStream\<close>, not a \<^verbatim>\<open>Measure\<close>, does not
  hold exactly two \<^verbatim>\<open>PartStaff\<close> elements, and is neither a \<^verbatim>\<open>Score\<close> nor an
  \<^verbatim>\<open>Opus\<close>.
\<close>

theorem streamToBraille_unsupported:
  assumes "isinstance s (StreamClass Stream)"
    and "\<not> isinstance s (StreamClass Part)"
    and "\<not> isinstance s (StreamClass TinyNotationStream)"
    and "\<not> isinstance s (StreamClass Measure)"
    and "length (getElementsByClass s (StreamClass PartStaff)) \<noteq> 2"
    and "\<not> isinstance s (StreamClass Score)"
    and "\<not> isinstance s (StreamClass Opus)"
  shows "streamToBraille c s kw
           = Inl (BrailleTranslateException ''Stream cannot be translated to Braille.'')"
  using assms by (simp add: streamToBraille_def)

theorem streamToBraille_unsupported_witness:
  "isinstance (StreamObj (OtherStream ''Voice'') [Element ''C'']) (StreamClass Stream)
   \<and> \<not> isinstance (StreamObj (OtherStream ''Voice'') [Element ''C'']) (StreamClass Part)
   \<and> \<not> isinstance (StreamObj (OtherStream ''Voice'') [Element ''C''])
         (StreamClass TinyNotationStream)
   \<and> \<not> isinstance (StreamObj (OtherStream ''Voice'') [Element ''C'']) (StreamClass Measure)
   \<and> length (getElementsByClass (StreamObj (OtherStream ''Voice'') [Element ''C''])
         (StreamClass PartStaff)) \<noteq> 2
   \<and> \<not> isinstance (StreamObj (OtherStream ''Voice'') [Element ''C'']) (StreamClass Score)
   \<and> \<not> isinstance (StreamObj (OtherStream ''Voice'') [Element ''C'']) (StreamClass Opus)
   \<and> streamToBraille sampleCollaborators (StreamObj (OtherStream ''Voice'') [Element ''C''])
         Map.empty
       = Inl (BrailleTranslateException ''Stream cannot be translated to Braille.'')"
  using streamToBraille_unsupported
    [of "StreamObj (OtherStream ''Voice'') [Element ''C'']" sampleCollaborators Map.empty]
  by (simp add: issubclass_def getElementsByClass_def)

text \<open>
  The claim as it is written does not except \<^verbatim>\<open>TinyNotationStream\<close>: such a stream
  is none of the listed kinds, and it is transcribed as a part.
\<close>

theorem streamToBraille_TinyNotationStream_counterexample:
  "isinstance sampleTinyNotationStream (StreamClass Stream)
   \<and> \<not> isinstance sampleTinyNotationStream (StreamClass Part)
   \<and> \<not> isinstance sampleTinyNotationStream (StreamClass Measure)
   \<and> length (getElementsByClass sampleTinyNotationStream (StreamClass PartStaff)) \<noteq> 2
   \<and> \<not> isinstance sampleTinyNotationStream (StreamClass Score)
   \<and> \<not> isinstance sampleTinyNotationStream (StreamClass Opus)
   \<and> streamToBraille sampleCollaborators sampleTinyNotationStream Map.empty = Inr ''CD''"
  by (simp add: sampleTinyNotationStream_def run_defs)

text \<open>
  Claim C10, as amended.  For every stream that is not a \<^verbatim>\<open>Part\<close>, a
  \<^verbatim>\<open>TinyNotationStream\<close> or a \<^verbatim>\<open>Measure\<close> and holds exactly two
  \<^verbatim>\<open>PartStaff\<close> elements, \<^verbatim>\<open>streamToBraille\<close> returns what
  \<^verbatim>\<open>keyboardPartsToBraille\<close> returns for these two elements.  In particular this is
  so for every \<^verbatim>\<open>Score\<close> with exactly two \<^verbatim>\<open>PartStaff\<close> elements, whatever
  \<^verbatim>\<open>Metadata\<close> objects it holds: the branch for scores is not reached and no
  metadata summary is part of the result.
\<close>

theorem streamToBraille_keyboard_first:
  "(\<not> isinstance s (StreamClass Part) \<and> \<not> isinstance s (StreamClass TinyNotationStream)
      \<and> \<not> isinstance s (StreamClass Measure)
      \<and> getElementsByClass s (StreamClass PartStaff) = [upper, lower]
     \<longrightarrow> streamToBraille c s kw = keyboardPartsToBraille c upper lower kw)
   \<and> (filter (\<lambda>e. isinstance e (StreamClass PartStaff)) es = [upper, lower]
     \<longrightarrow> streamToBraille c (StreamObj Score es) kw = keyboardPartsToBraille c upper lower kw)"
  by (simp add: streamToBraille_def getElementsByClass_def issubclass_def)

theorem streamToBraille_keyboard_first_witness:
  "getElementsByClass sampleKeyboardScore (StreamClass PartStaff)
     = [StreamObj PartStaff [StreamObj Measure [Element ''a'']],
        StreamObj PartStaff [StreamObj Measure [Element ''b'']]]
   \<and> streamToBraille sampleCollaborators sampleKeyboardScore Map.empty
     = keyboardPartsToBraille sampleCollaborators
         (StreamObj PartStaff [StreamObj Measure [Element ''a'']])
         (StreamObj PartStaff [StreamObj Measure [Element ''b'']]) Map.empty
   \<and> streamToBraille sampleCollaborators sampleKeyboardScore Map.empty
     = Inr (''a'' @ [CHR 0x0A] @ ''b'')
   \<and> scoreToBraille sampleCollaborators sampleKeyboardScore Map.empty
     = Inr (''Title: T'' @ [CHR 0x0A] @ ''a'' @ [CHR 0x0A] @ ''b'')"
proof -
  have staves: "getElementsByClass sampleKeyboardScore (StreamClass PartStaff)
     = [StreamObj PartStaff [StreamObj Measure [Element ''a'']],
        StreamObj PartStaff [StreamObj Measure [Element ''b'']]]"
    by (simp add: sampleKeyboardScore_def getElementsByClass_def issubclass_def)
  have routed: "streamToBraille sampleCollaborators sampleKeyboardScore Map.empty
     = keyboardPartsToBraille sampleCollaborators
         (StreamObj PartStaff [StreamObj Measure [Element ''a'']])
         (StreamObj PartStaff [StreamObj Measure [Element ''b'']]) Map.empty"
    using streamToBraille_keyboard_first
      [of sampleKeyboardScore "StreamObj PartStaff [StreamObj Measure [Element ''a'']]"
          "StreamObj PartStaff [StreamObj Measure [Element ''b'']]" sampleCollaborators Map.empty]
      staves
    by (simp add: sampleKeyboardScore_def issubclass_def)
  have keyboard: "keyboardPartsToBraille sampleCollaborators
         (StreamObj PartStaff [StreamObj Measure [Element ''a'']])
         (StreamObj PartStaff [StreamObj Measure [Element ''b'']]) Map.empty
     = Inr (''a'' @ [CHR 0x0A] @ ''b'')"
    by (simp add: run_defs)
  have score: "scoreToBraille sampleCollaborators sampleKeyboardScore Map.empty
     = Inr (''Title: T'' @ [CHR 0x0A] @ ''a'' @ [CHR 0x0A] @ ''b'')"
    by (simp add: sampleKeyboardScore_def run_defs)
  from staves routed keyboard score show ?thesis by simp
qed

text \<open>
  The claim as it is written speaks of every stream with exactly two \<^verbatim>\<open>PartStaff\<close>
  elements.  A \<^verbatim>\<open>Part\<close> that holds two staves is caught by the first test of
  \<^verbatim>\<open>streamToBraille\<close> and transcribed as a part.
\<close>

theorem streamToBraille_Part_of_staves_counterexample:
  "getElementsByClass samplePartOfStaves (StreamClass PartStaff)
     = [StreamObj PartStaff [StreamObj Measure [Element ''a'']],
        StreamObj PartStaff [StreamObj Measure [Element ''b'']]]
   \<and> streamToBraille sampleCollaborators samplePartOfStaves Map.empty
     = partToBraille sampleCollaborators samplePartOfStaves Map.empty
   \<and> streamToBraille sampleCollaborators samplePartOfStaves Map.empty = Inr ''c''
   \<and> keyboardPartsToBraille sampleCollaborators
         (StreamObj PartStaff [StreamObj Measure [Element ''a'']])
         (StreamObj PartStaff [StreamObj Measure [Element ''b'']]) Map.empty
     = Inr (''a'' @ [CHR 0x0A] @ ''b'')"
  by (simp add: samplePartOfStaves_def run_defs)


section \<open>\<^verbatim>\<open>measureToBraille\<close>\<close>

lemma measureToBraille_keywords:
  "measureToBraille c music21Measure kw =
     (case (if \<not> truthy (fst (translateArgs kw)) then makeNotation c music21Measure
            else Inr music21Measure) of
        Inl e \<Rightarrow> Inl e
      | Inr measureToTranscribe \<Rightarrow>
          partToBraille c (StreamObj Part [measureToTranscribe])
            ([''showHeading'' \<mapsto> KBool False, ''showFirstMeasureNumber'' \<mapsto> KBool False]
               ++ kw ++ [''inPlace'' \<mapsto> KBool True]))"
proof -
  define kw1 where
    "kw1 = (if kw ''showHeading'' = None then kw(''showHeading'' \<mapsto> KBool False) else kw)"
  define kw2 where
    "kw2 = (if kw1 ''showFirstMeasureNumber'' = None
            then kw1(''showFirstMeasureNumber'' \<mapsto> KBool False) else kw1)"
  have passed: "kw2(''inPlace'' \<mapsto> KBool True)
      = [''showHeading'' \<mapsto> KBool False, ''showFirstMeasureNumber'' \<mapsto> KBool False]
          ++ kw ++ [''inPlace'' \<mapsto> KBool True]"
    by (rule ext) (auto simp: kw1_def kw2_def map_add_def split: option.splits)
  have step: "measureToBraille c music21Measure kw =
     (case (if \<not> truthy (fst (translateArgs kw)) then makeNotation c music21Measure
            else Inr music21Measure) of
        Inl e \<Rightarrow> Inl e
      | Inr measureToTranscribe \<Rightarrow>
          partToBraille c (StreamObj Part [measureToTranscribe]) (kw2(''inPlace'' \<mapsto> KBool True)))"
    unfolding measureToBraille_def kw1_def kw2_def Let_def case_prod_beta by (rule refl)
  show ?thesis unfolding passed [symmetric] by (fact step)
qed

text \<open>
  Claim C9.  \<^verbatim>\<open>measureToBraille\<close> transcribes the measure (renotated unless
  \<^verbatim>\<open>inPlace\<close> is set) as the only element of a new \<^verbatim>\<open>Part\<close>, with
  \<^verbatim>\<open>partToBraille\<close>, under these keywords: \<^verbatim>\<open>showHeading\<close> and
  \<^verbatim>\<open>showFirstMeasureNumber\<close> are \<^verbatim>\<open>False\<close>, overridden by whatever the caller
  passed (under any name), overridden by \<^verbatim>\<open>inPlace = True\<close>.  So the two options
  are \<^verbatim>\<open>False\<close> exactly when the caller did not supply them.
\<close>

theorem measureToBraille_heading_off_by_default:
  "measureToBraille c music21Measure kw =
     (case (if \<not> truthy (fst (translateArgs kw)) then makeNotation c music21Measure
            else Inr music21Measure) of
        Inl e \<Rightarrow> Inl e
      | Inr measureToTranscribe \<Rightarrow>
          partToBraille c (StreamObj Part [measureToTranscribe])
            ([''showHeading'' \<mapsto> KBool False, ''showFirstMeasureNumber'' \<mapsto> KBool False]
               ++ kw ++ [''inPlace'' \<mapsto> KBool True]))"
  by (rule measureToBraille_keywords)

theorem measureToBraille_heading_off_by_default_witness:
  "([''showHeading'' \<mapsto> KBool False, ''showFirstMeasureNumber'' \<mapsto> KBool False]
      ++ [''showHeading'' \<mapsto> KBool True] ++ [''inPlace'' \<mapsto> KBool True]) ''showHeading''
     = Some (KBool True)
   \<and> ([''showHeading'' \<mapsto> KBool False, ''showFirstMeasureNumber'' \<mapsto> KBool False]
      ++ [''showHeading'' \<mapsto> KBool True] ++ [''inPlace'' \<mapsto> KBool True])
        ''showFirstMeasureNumber''
     = Some (KBool False)
   \<and> measureToBraille sampleCollaborators (StreamObj Measure [Element ''a''])
        [''showHeading'' \<mapsto> KBool True]
     = partToBraille sampleCollaborators (StreamObj Part [StreamObj Measure [Element ''a'']])
         ([''showHeading'' \<mapsto> KBool False, ''showFirstMeasureNumber'' \<mapsto> KBool False]
            ++ [''showHeading'' \<mapsto> KBool True] ++ [''inPlace'' \<mapsto> KBool True])
   \<and> measureToBraille sampleCollaborators (StreamObj Measure [Element ''a''])
        [''showHeading'' \<mapsto> KBool True]
     = Inr ''a''"
proof -
  have "measureToBraille sampleCollaborators (StreamObj Measure [Element ''a''])
          [''showHeading'' \<mapsto> KBool True]
        = partToBraille sampleCollaborators (StreamObj Part [StreamObj Measure [Element ''a'']])
            ([''showHeading'' \<mapsto> KBool False, ''showFirstMeasureNumber'' \<mapsto> KBool False]
               ++ [''showHeading'' \<mapsto> KBool True] ++ [''inPlace'' \<mapsto> KBool True])"
    using measureToBraille_heading_off_by_default
      [of sampleCollaborators "StreamObj Measure [Element ''a'']"
          "[''showHeading'' \<mapsto> KBool True]"]
    by (simp add: translateArgs_def kwargs_get_def sampleCollaborators_def)
  moreover have "partToBraille sampleCollaborators
            (StreamObj Part [StreamObj Measure [Element ''a'']])
            ([''showHeading'' \<mapsto> KBool False, ''showFirstMeasureNumber'' \<mapsto> KBool False]
               ++ [''showHeading'' \<mapsto> KBool True] ++ [''inPlace'' \<mapsto> KBool True])
        = Inr ''a''"
    by (simp add: run_defs map_add_def)
  ultimately show ?thesis by (simp add: map_add_def)
qed

section \<open>\<^verbatim>\<open>keyboardPartsToBraille\<close>\<close>

lemma keyboardPartsToBraille_loop_all_Inr:
  "map (\<lambda>(rh, lh). grandSegmentText c debug rh lh) pairs = map Inr units
     \<Longrightarrow> keyboardPartsToBraille_loop c debug pairs acc = Inr (acc @ units)"
proof (induction pairs arbitrary: acc units)
  case Nil
  then show ?case by simp
next
  case (Cons pair pairs)
  obtain rh lh where pair: "pair = (rh, lh)" by (cases pair)
  from Cons.prems pair obtain u units'
    where units: "units = u # units'" and u: "grandSegmentText c debug rh lh = Inr u"
      and rest: "map (\<lambda>(rh, lh). grandSegmentText c debug rh lh) pairs = map Inr units'"
    by (cases units) auto
  from u have "keyboardPartsToBraille_loop c debug ((rh, lh) # pairs) acc
                 = keyboardPartsToBraille_loop c debug pairs (acc @ [u])"
    by (auto simp: grandSegmentText_def split: sum.splits if_splits)
  with Cons.IH [OF rest] pair units show ?case by simp
qed

text \<open>
  Claim C1, as amended.  \<^verbatim>\<open>keyboardPartsToBraille\<close> has no check of the two
  segment sequences against each other and raises no alignment error: it walks
  \<^verbatim>\<open>zip(rhSegments, lhSegments)\<close>, which stops at the end of the shorter sequence.
  When the collaborators return, the result is one text per index pair, as many as the
  shorter sequence is long (one per segment when the lengths agree), joined by newlines;
  each is read from a \<^verbatim>\<open>BrailleGrandSegment\<close> built from the upper segment first and
  the lower segment second.  For collaborators \<open>g\<close> whose grand segment is the one
  of the spec, and outside \<^verbatim>\<open>debug\<close>, the text of a pair is the lines of the
  upper segment's transcription, a newline and the lines of the lower segment's.
\<close>

theorem keyboardPartsToBraille_pairs_by_index:
  "((if \<not> truthy (fst (translateArgs kw)) then makeNotation c upper else Inr upper)
       = Inr upperPartToTranscribe
     \<and> (if \<not> truthy (fst (translateArgs kw)) then makeNotation c lower else Inr lower)
       = Inr lowerPartToTranscribe
     \<and> findSegments c upperPartToTranscribe kw = Inr rhSegments
     \<and> findSegments c lowerPartToTranscribe kw = Inr lhSegments
     \<and> map (\<lambda>(rh, lh). grandSegmentText c (snd (translateArgs kw)) rh lh)
          (zip rhSegments lhSegments) = map Inr units
    \<longrightarrow> keyboardPartsToBraille c upper lower kw = Inr (str_join newline units)
        \<and> length units = min (length rhSegments) (length lhSegments))
   \<and> (BrailleGrandSegment g = specBrailleGrandSegment
       \<and> transcription g = specTranscription transcribeUpper transcribeLower
       \<and> \<not> truthy debug
       \<and> transcribeUpper rh = Inr upperLines \<and> transcribeLower lh = Inr lowerLines
    \<longrightarrow> grandSegmentText g debug rh lh = Inr (upperLines @ newline @ lowerLines))"
proof (intro conjI impI)
  assume a: "(if \<not> truthy (fst (translateArgs kw)) then makeNotation c upper else Inr upper)
       = Inr upperPartToTranscribe
     \<and> (if \<not> truthy (fst (translateArgs kw)) then makeNotation c lower else Inr lower)
       = Inr lowerPartToTranscribe
     \<and> findSegments c upperPartToTranscribe kw = Inr rhSegments
     \<and> findSegments c lowerPartToTranscribe kw = Inr lhSegments
     \<and> map (\<lambda>(rh, lh). grandSegmentText c (snd (translateArgs kw)) rh lh)
          (zip rhSegments lhSegments) = map Inr units"
  then have loop: "keyboardPartsToBraille_loop c (snd (translateArgs kw))
                     (zip rhSegments lhSegments) [] = Inr units"
    using keyboardPartsToBraille_loop_all_Inr [of c "snd (translateArgs kw)" _ units "[]"]
    by simp
  obtain inPlace debug where args: "translateArgs kw = (inPlace, debug)"
    by (cases "translateArgs kw")
  with a loop show "keyboardPartsToBraille c upper lower kw = Inr (str_join newline units)"
    by (simp add: keyboardPartsToBraille_def)
  from a have "length (zip rhSegments lhSegments) = length units"
    by (metis length_map)
  then show "length units = min (length rhSegments) (length lhSegments)"
    by simp
next
  assume "BrailleGrandSegment g = specBrailleGrandSegment
       \<and> transcription g = specTranscription transcribeUpper transcribeLower
       \<and> \<not> truthy debug
       \<and> transcribeUpper rh = Inr upperLines \<and> transcribeLower lh = Inr lowerLines"
  then show "grandSegmentText g debug rh lh = Inr (upperLines @ newline @ lowerLines)"
    by (simp add: grandSegmentText_def specBrailleGrandSegment_def specTranscription_def)
qed

theorem keyboardPartsToBraille_pairs_by_index_witness:
  "findSegments sampleCollaborators sampleUpperStaff Map.empty
     = Inr [StreamObj Measure [Element ''a''], StreamObj Measure [Element ''b'']]
   \<and> findSegments sampleCollaborators sampleLowerStaff Map.empty
     = Inr [StreamObj Measure [Element ''c'']]
   \<and> keyboardPartsToBraille sampleCollaborators sampleUpperStaff sampleLowerStaff Map.empty
     = Inr (str_join newline [''a'' @ newline @ ''c''])
   \<and> length [''a'' @ newline @ ''c'']
     = min (length [StreamObj Measure [Element ''a''], StreamObj Measure [Element ''b'']])
           (length [StreamObj Measure [Element ''c'']])
   \<and> grandSegmentText (specCollaborators docstringTables) (KBool False)
         sampleUpperSegment sampleLowerSegment
     = Inr ([CHR 0xE2, CHR 0xA0, CHR 0xA8, CHR 0xE2, CHR 0xA0, CHR 0x9C,
             CHR 0xE2, CHR 0xA0, CHR 0x9C, CHR 0xE2, CHR 0xA0, CHR 0x8B]
            @ newline
            @ [CHR 0xE2, CHR 0xA0, CHR 0xB8, CHR 0xE2, CHR 0xA0, CHR 0x9C,
               CHR 0xE2, CHR 0xA0, CHR 0x9C, CHR 0xE2, CHR 0xA0, CHR 0x8F])"
proof -
  have "keyboardPartsToBraille sampleCollaborators sampleUpperStaff sampleLowerStaff Map.empty
          = Inr (str_join newline [''a'' @ newline @ ''c''])
        \<and> length [''a'' @ newline @ ''c'']
          = min (length [StreamObj Measure [Element ''a''], StreamObj Measure [Element ''b'']])
                (length [StreamObj Measure [Element ''c'']])"
    using keyboardPartsToBraille_pairs_by_index
      [of Map.empty sampleCollaborators sampleUpperStaff sampleUpperStaff
          sampleLowerStaff sampleLowerStaff
          "[StreamObj Measure [Element ''a''], StreamObj Measure [Element ''b'']]"
          "[StreamObj Measure [Element ''c'']]" "[''a'' @ newline @ ''c'']", THEN conjunct1]
    by (simp add: sampleUpperStaff_def sampleLowerStaff_def sampleCollaborators_def
        getElementsByClass_def issubclass_def translateArgs_def kwargs_get_def
        grandSegmentText_def)
  moreover have "grandSegmentText (specCollaborators docstringTables) (KBool False)
         sampleUpperSegment sampleLowerSegment
     = Inr ([CHR 0xE2, CHR 0xA0, CHR 0xA8, CHR 0xE2, CHR 0xA0, CHR 0x9C,
             CHR 0xE2, CHR 0xA0, CHR 0x9C, CHR 0xE2, CHR 0xA0, CHR 0x8B]
            @ newline
            @ [CHR 0xE2, CHR 0xA0, CHR 0xB8, CHR 0xE2, CHR 0xA0, CHR 0x9C,
               CHR 0xE2, CHR 0xA0, CHR 0x9C, CHR 0xE2, CHR 0xA0, CHR 0x8F])"
  proof -
    have upper: "specTranscribe docstringTables (withHand ''right'' sampleUpperSegment)
        = Inr [CHR 0xE2, CHR 0xA0, CHR 0xA8, CHR 0xE2, CHR 0xA0, CHR 0x9C,
               CHR 0xE2, CHR 0xA0, CHR 0x9C, CHR 0xE2, CHR 0xA0, CHR 0x8B]"
      by (simp add: specTranscribe_def withHand_def sampleUpperSegment_def docstringTables_def)
    have lower: "specTranscribe docstringTables (withHand ''left'' sampleLowerSegment)
        = Inr [CHR 0xE2, CHR 0xA0, CHR 0xB8, CHR 0xE2, CHR 0xA0, CHR 0x9C,
               CHR 0xE2, CHR 0xA0, CHR 0x9C, CHR 0xE2, CHR 0xA0, CHR 0x8F]"
      by (simp add: specTranscribe_def withHand_def sampleLowerSegment_def docstringTables_def)
    have grand: "BrailleGrandSegment (specCollaborators docstringTables) = specBrailleGrandSegment"
      and layout: "transcription (specCollaborators docstringTables)
        = specTranscription (\<lambda>seg. specTranscribe docstringTables (withHand ''right'' seg))
            (\<lambda>seg. specTranscribe docstringTables (withHand ''left'' seg))"
      by (simp_all add: specCollaborators_def)
    from grand layout upper lower
      keyboardPartsToBraille_pairs_by_index
        [where g = "specCollaborators docstringTables" and debug = "KBool False"
           and transcribeUpper = "\<lambda>seg. specTranscribe docstringTables (withHand ''right'' seg)"
           and transcribeLower = "\<lambda>seg. specTranscribe docstringTables (withHand ''left'' seg)"
           and rh = sampleUpperSegment and lh = sampleLowerSegment, THEN conjunct2]
    show ?thesis by simp
  qed
  ultimately show ?thesis
    by (simp add: sampleUpperStaff_def sampleLowerStaff_def sampleCollaborators_def
        getElementsByClass_def issubclass_def)
qed

text \<open>
  The claim as it is written has unequal lengths raise an alignment error.  Here the
  upper staff gives two segments and the lower staff one, and the call returns the text
  of the first pair.
\<close>

theorem keyboardPartsToBraille_unequal_lengths_counterexample:
  "findSegments sampleCollaborators sampleUpperStaff Map.empty
     = Inr [StreamObj Measure [Element ''a''], StreamObj Measure [Element ''b'']]
   \<and> findSegments sampleCollaborators sampleLowerStaff Map.empty
     = Inr [StreamObj Measure [Element ''c'']]
   \<and> keyboardPartsToBraille sampleCollaborators sampleUpperStaff sampleLowerStaff Map.empty
     = Inr (''a'' @ [CHR 0x0A] @ ''c'')"
  by (simp add: sampleUpperStaff_def sampleLowerStaff_def run_defs)


section \<open>\<^verbatim>\<open>partToBraille\<close>: renotation\<close>

lemma partToBraille_loop_makeNotation_update:
  "partToBraille_loop (c\<lparr>makeNotation := f\<rparr>) debug segs acc = partToBraille_loop c debug segs acc"
  by (induction segs arbitrary: acc) (auto split: sum.splits)

lemma transcribeAsIs_makeNotation_update:
  "transcribeAsIs (c\<lparr>makeNotation := f\<rparr>) x kw = transcribeAsIs c x kw"
  by (simp add: transcribeAsIs_def partToBraille_loop_makeNotation_update split: sum.splits)

lemma partToBraille_unfold:
  "partToBraille c p kw =
     (case (if \<not> truthy (fst (translateArgs kw)) then makeNotation c p else Inr p) of
        Inl e \<Rightarrow> Inl e
      | Inr partToTranscribe \<Rightarrow> transcribeAsIs c partToTranscribe kw)"
  unfolding partToBraille_def transcribeAsIs_def case_prod_beta by (rule refl)

text \<open>
  Claim C5.  When \<^verbatim>\<open>inPlace\<close> is not set, \<^verbatim>\<open>partToBraille\<close> first calls
  \<^verbatim>\<open>makeNotation\<close> on the part it is given; an exception of that call ends the
  transcription, and otherwise \<^verbatim>\<open>findSegments\<close> and everything after it are
  applied to the copy that the call returned.  The part itself is handed to
  \<^verbatim>\<open>makeNotation\<close> and to nothing else: two parts with the same answer of
  \<^verbatim>\<open>makeNotation\<close> have the same transcription.  When \<^verbatim>\<open>inPlace\<close> is set, the
  part itself is transcribed, and \<^verbatim>\<open>makeNotation\<close> is not called: replacing it
  by any other function changes nothing.  The statements after the renotation never
  call it either.  Objects are values here, so nothing can change the caller's part;
  what the code adds to that is the path of the part: without \<^verbatim>\<open>inPlace\<close> the
  only call that receives it is \<^verbatim>\<open>makeNotation\<close>, whose own contract is to
  return a copy.
\<close>

theorem partToBraille_renotates_unless_inPlace:
  "(\<not> truthy (fst (translateArgs kw)) \<longrightarrow>
      partToBraille c music21Part kw =
        (case makeNotation c music21Part of
           Inl e \<Rightarrow> Inl e
         | Inr partToTranscribe \<Rightarrow> transcribeAsIs c partToTranscribe kw)
      \<and> (\<forall>other. makeNotation c other = makeNotation c music21Part
            \<longrightarrow> partToBraille c other kw = partToBraille c music21Part kw))
   \<and> (truthy (fst (translateArgs kw)) \<longrightarrow>
      partToBraille c music21Part kw = transcribeAsIs c music21Part kw
      \<and> (\<forall>f. partToBraille (c\<lparr>makeNotation := f\<rparr>) music21Part kw
               = partToBraille c music21Part kw))
   \<and> (\<forall>f x. transcribeAsIs (c\<lparr>makeNotation := f\<rparr>) x kw = transcribeAsIs c x kw)"
  by (simp add: partToBraille_unfold transcribeAsIs_makeNotation_update)

theorem partToBraille_renotates_unless_inPlace_witness:
  "\<not> truthy (fst (translateArgs Map.empty))
   \<and> partToBraille renotatingCollaborators sampleLoosePart Map.empty
     = transcribeAsIs renotatingCollaborators
         (StreamObj Part [StreamObj Measure [Element ''a'', Element ''b'']]) Map.empty
   \<and> partToBraille renotatingCollaborators sampleLoosePart Map.empty = Inr ''ab''
   \<and> truthy (fst (translateArgs [''inPlace'' \<mapsto> KBool True]))
   \<and> partToBraille renotatingCollaborators sampleLoosePart [''inPlace'' \<mapsto> KBool True]
     = transcribeAsIs renotatingCollaborators sampleLoosePart [''inPlace'' \<mapsto> KBool True]
   \<and> partToBraille renotatingCollaborators sampleLoosePart [''inPlace'' \<mapsto> KBool True]
     = Inr ''''"
proof -
  have off: "\<not> truthy (fst (translateArgs Map.empty))"
    by (simp add: translateArgs_def kwargs_get_def)
  have on: "truthy (fst (translateArgs [''inPlace'' \<mapsto> KBool True]))"
    by (simp add: translateArgs_def kwargs_get_def)
  have copy: "makeNotation renotatingCollaborators sampleLoosePart
                = Inr (StreamObj Part [StreamObj Measure [Element ''a'', Element ''b'']])"
    by (simp add: renotatingCollaborators_def sampleLoosePart_def)
  from off copy
    partToBraille_renotates_unless_inPlace [of Map.empty renotatingCollaborators sampleLoosePart]
  have renotated: "partToBraille renotatingCollaborators sampleLoosePart Map.empty
     = transcribeAsIs renotatingCollaborators
         (StreamObj Part [StreamObj Measure [Element ''a'', Element ''b'']]) Map.empty"
    by simp
  from on
    partToBraille_renotates_unless_inPlace
      [of "[''inPlace'' \<mapsto> KBool True]" renotatingCollaborators sampleLoosePart]
  have as_is: "partToBraille renotatingCollaborators sampleLoosePart [''inPlace'' \<mapsto> KBool True]
     = transcribeAsIs renotatingCollaborators sampleLoosePart [''inPlace'' \<mapsto> KBool True]"
    by blast
  have text_copy: "transcribeAsIs renotatingCollaborators
         (StreamObj Part [StreamObj Measure [Element ''a'', Element ''b'']]) Map.empty = Inr ''ab''"
    by (simp add: transcribeAsIs_def renotatingCollaborators_def run_defs)
  have text_as_is: "transcribeAsIs renotatingCollaborators sampleLoosePart
         [''inPlace'' \<mapsto> KBool True] = Inr ''''"
    by (simp add: transcribeAsIs_def renotatingCollaborators_def sampleLoosePart_def run_defs)
  from off on renotated as_is text_copy text_as_is show ?thesis by simp
qed


section \<open>The words of a key and their title case\<close>

lemma isLower_not_isUpper: "isLower ch \<Longrightarrow> \<not> isUpper ch"
  unfolding isLower_def isUpper_def lowerLetters_def upperLetters_def
  by (elim disjE | simp)+

lemma toLower_isLower: "isLower ch \<Longrightarrow> toLower ch = ch"
  unfolding isLower_def toLower_def lowerLetters_def upperLetters_def
  by (elim disjE | simp)+

lemma toUpper_isUpper: "isUpper ch \<Longrightarrow> toUpper ch = ch"
  unfolding isUpper_def toUpper_def lowerLetters_def upperLetters_def
  by (elim disjE | simp)+

lemma space_not_cased: "\<not> isLower CHR '' ''" "\<not> isUpper CHR '' ''"
  by (simp_all add: isLower_def isUpper_def lowerLetters_def upperLetters_def)

lemma findall_words:
  "w \<in> set (findall key) \<Longrightarrow> w \<noteq> [] \<and> (\<forall>ch \<in> set w. isUpper ch \<or> isLower ch)"
proof (induction key rule: findall.induct)
  case 1
  then show ?case by simp
next
  case (2 ch cs)
  show ?case
  proof (cases "takeWhile isLower (dropWhile isUpper (ch # cs)) = []")
    case True
    with 2 show ?thesis by simp
  next
    case False
    with "2.prems" consider
        "w = takeWhile isUpper (ch # cs) @ takeWhile isLower (dropWhile isUpper (ch # cs))"
      | "w \<in> set (findall (dropWhile isLower (dropWhile isUpper (ch # cs))))"
      by (auto simp del: takeWhile.simps dropWhile.simps)
    then show ?thesis
    proof cases
      case 1
      with False show ?thesis
        by (auto simp del: takeWhile.simps dropWhile.simps dest: set_takeWhileD)
    next
      case 2
      with False "2.IH"(1) show ?thesis by blast
    qed
  qed
qed

lemma title_from_cased_run:
  "\<forall>ch \<in> set w. isUpper ch \<or> isLower ch
     \<Longrightarrow> title_from True (w @ rest) = map toLower w @ title_from True rest"
  by (induction w) (auto simp: toLower_isLower)

lemma title_from_word:
  assumes "w \<noteq> []" and "\<forall>ch \<in> set w. isUpper ch \<or> isLower ch"
  shows "title_from False (w @ rest) = capitalize w @ title_from True rest"
proof -
  from assms(1) obtain ch cs where w: "w = ch # cs" by (cases w) auto
  with assms(2) have cs: "\<forall>x \<in> set cs. isUpper x \<or> isLower x"
    and ch: "isUpper ch \<or> isLower ch" by auto
  from ch w title_from_cased_run [OF cs, of rest] show ?thesis
    by (auto simp: capitalize_def toUpper_isUpper isLower_not_isUpper)
qed

lemma title_from_words:
  assumes "\<forall>w \<in> set ws. w \<noteq> [] \<and> (\<forall>ch \<in> set w. isUpper ch \<or> isLower ch)"
  shows "title_from False (str_join '' '' ws) = str_join '' '' (map capitalize ws)"
  using assms
proof (induction "'' ''" ws rule: str_join.induct)
  case 1
  then show ?case by simp
next
  case (2 x)
  then show ?case using title_from_word [of x "[]"] by simp
next
  case (3 x y ys)
  then have x: "x \<noteq> []" "\<forall>ch \<in> set x. isUpper ch \<or> isLower ch" by auto
  from 3 have "title_from False (str_join '' '' (y # ys))
                 = str_join '' '' (map capitalize (y # ys))" by simp
  with title_from_word [OF x, of "'' '' @ str_join '' '' (y # ys)"] show ?case
    by (simp add: space_not_cased)
qed

lemma workIdLine_capitalized_words:
  "workIdLine key v = str_join '' '' (map capitalize (findall key)) @ '': '' @ v"
  using title_from_words [of "findall key"] findall_words [of _ key]
  by (simp add: workIdLine_def title_def)


section \<open>\<^verbatim>\<open>metadataToString\<close> and \<^verbatim>\<open>scoreToBraille\<close>\<close>

lemma metadataToString_loop_lines:
  "metadataToString_loop w acc
     = acc @ [workIdLine key v. (key, Some v) \<leftarrow> w]"
proof (induction w arbitrary: acc)
  case Nil
  then show ?case by simp
next
  case (Cons entry w)
  obtain key val where entry: "entry = (key, val)" by (cases entry)
  show ?case
  proof (cases val)
    case None
    with entry Cons.IH [of acc] show ?thesis by simp
  next
    case (Some v)
    with entry Cons.IH [of "acc @ [workIdLine key v]"]
    show ?thesis by simp
  qed
qed

lemma scoreToBraille_metadata_map:
  "scoreToBraille_metadata ms acc = acc @ map metadataToString ms"
  by (induction ms arbitrary: acc) simp_all

lemma scoreToBraille_parts_all_Inr:
  "map (\<lambda>p. partToBraille c p kw) parts = map Inr ts
     \<Longrightarrow> scoreToBraille_parts c kw parts acc = Inr (acc @ ts)"
proof (induction parts arbitrary: acc ts)
  case Nil
  then show ?case by simp
next
  case (Cons p parts)
  then obtain t ts' where ts: "ts = t # ts'" and t: "partToBraille c p kw = Inr t"
    and rest: "map (\<lambda>p. partToBraille c p kw) parts = map Inr ts'"
    by (cases ts) auto
  from Cons.IH [OF rest] t ts show ?case by simp
qed

lemma scoreToBraille_parts_first_Inl:
  "map (\<lambda>p. partToBraille c p kw) parts = map Inr pre @ Inl e # post
     \<Longrightarrow> scoreToBraille_parts c kw parts acc = Inl e"
proof (induction pre arbitrary: parts acc)
  case Nil
  then show ?case by (cases parts) auto
next
  case (Cons t pre)
  then obtain p parts' where parts: "parts = p # parts'"
    and t: "partToBraille c p kw = Inr t"
    and rest: "map (\<lambda>p. partToBraille c p kw) parts' = map Inr pre @ Inl e # post"
    by (cases parts) auto
  from Cons.IH [OF rest] t parts show ?case by simp
qed

lemma workIdLines_capitalized:
  "[workIdLine key v. (key, Some v) \<leftarrow> w]
     = [str_join '' '' (map capitalize (findall key)) @ '': '' @ v. (key, Some v) \<leftarrow> w]"
proof (induction w)
  case Nil
  show ?case by simp
next
  case (Cons entry w)
  obtain key val where entry: "entry = (key, val)" by (cases entry)
  show ?case
  proof (cases val)
    case None
    with entry Cons show ?thesis by simp
  next
    case (Some v)
    with entry Cons workIdLine_capitalized_words [of key v] show ?thesis by simp
  qed
qed

lemma metadataToString_sorted_lines:
  "metadataToString music21Metadata
     = str_join newline
         (sort [str_join '' '' (map capitalize (findall key)) @ '': '' @ v.
                  (key, Some v) \<leftarrow> workIds music21Metadata])"
  unfolding metadataToString_def metadataToString_loop_lines workIdLines_capitalized append_Nil
  by (rule refl)

text \<open>
  Claim C3, as amended.  For every \<^verbatim>\<open>Metadata\<close> element of the score, in the
  order of the elements, \<^verbatim>\<open>scoreToBraille\<close> emits one block: one line for every
  work-id key whose value is not \<open>None\<close>, made of the words of the key (the matches
  of \<^verbatim>\<open>[A-Z]*[a-z]+\<close>), each with its first letter in upper case and the others
  in lower case, joined by spaces, then \<^verbatim>\<open>": "\<close>, then the value; the lines
  of a block are sorted among themselves and joined by newlines.  The blocks, followed by
  the transcriptions of the \<^verbatim>\<open>Part\<close> elements in their order, are joined by
  newlines.  When a part raises, the first exception raised is the result of the call.
\<close>

theorem scoreToBraille_metadata_summary:
  assumes "isinstance music21Score (StreamClass Stream)"
  shows
  "(\<forall>ts. map (\<lambda>p. partToBraille c p kw) (getElementsByClass music21Score (StreamClass Part))
            = map Inr ts
      \<longrightarrow> scoreToBraille c music21Score kw =
            Inr (str_join newline
                  (map (\<lambda>music21Metadata.
                          str_join newline
                            (sort [str_join '' '' (map capitalize (findall key)) @ '': '' @ v.
                                     (key, Some v) \<leftarrow> workIds music21Metadata]))
                       (getElementsByClass music21Score MetadataClass)
                   @ ts)))
   \<and> (\<forall>pre e post.
         map (\<lambda>p. partToBraille c p kw) (getElementsByClass music21Score (StreamClass Part))
            = map Inr pre @ Inl e # post
      \<longrightarrow> scoreToBraille c music21Score kw = Inl e)"
proof -
  define blocks where
    "blocks = map (\<lambda>music21Metadata.
                str_join newline
                  (sort [str_join '' '' (map capitalize (findall key)) @ '': '' @ v.
                           (key, Some v) \<leftarrow> workIds music21Metadata]))
              (getElementsByClass music21Score MetadataClass)"
  have "map metadataToString (getElementsByClass music21Score MetadataClass) = blocks"
    unfolding blocks_def by (rule map_cong [OF refl]) (rule metadataToString_sorted_lines)
  then have meta:
    "scoreToBraille_metadata (getElementsByClass music21Score MetadataClass) [] = blocks"
    by (simp add: scoreToBraille_metadata_map)
  show ?thesis
    unfolding scoreToBraille_def meta blocks_def [symmetric]
    by (simp add: scoreToBraille_parts_all_Inr scoreToBraille_parts_first_Inl)
qed

theorem scoreToBraille_metadata_summary_witness:
  "isinstance sampleScore (StreamClass Stream)
   \<and> map (\<lambda>p. partToBraille sampleCollaborators p Map.empty)
       (getElementsByClass sampleScore (StreamClass Part))
     = map Inr [''a'' @ [CHR 0x0A] @ ''b'', ''c'']
   \<and> scoreToBraille sampleCollaborators sampleScore Map.empty
     = Inr (''Movement Name: [Movement 1]'' @ [CHR 0x0A] @ ''Movement Number: 1'' @ [CHR 0x0A]
            @ ''Title: Sonata I'' @ [CHR 0x0A] @ ''a'' @ [CHR 0x0A] @ ''b'' @ [CHR 0x0A] @ ''c'')"
proof -
  have stream: "isinstance sampleScore (StreamClass Stream)"
    by (simp add: sampleScore_def issubclass_def)
  have parts: "map (\<lambda>p. partToBraille sampleCollaborators p Map.empty)
       (getElementsByClass sampleScore (StreamClass Part))
     = map Inr [''a'' @ [CHR 0x0A] @ ''b'', ''c'']"
    by (simp add: sampleScore_def run_defs)
  with scoreToBraille_metadata_summary [OF stream, of sampleCollaborators Map.empty]
  have "scoreToBraille sampleCollaborators sampleScore Map.empty =
            Inr (str_join newline
                  (map (\<lambda>music21Metadata.
                          str_join newline
                            (sort [str_join '' '' (map capitalize (findall key)) @ '': '' @ v.
                                     (key, Some v) \<leftarrow> workIds music21Metadata]))
                       (getElementsByClass sampleScore MetadataClass)
                   @ [''a'' @ [CHR 0x0A] @ ''b'', ''c'']))"
    by blast
  then have "scoreToBraille sampleCollaborators sampleScore Map.empty
     = Inr (''Movement Name: [Movement 1]'' @ [CHR 0x0A] @ ''Movement Number: 1'' @ [CHR 0x0A]
            @ ''Title: Sonata I'' @ [CHR 0x0A] @ ''a'' @ [CHR 0x0A] @ ''b'' @ [CHR 0x0A] @ ''c'')"
    by (simp add: sampleScore_def getElementsByClass_def newline_def capitalize_def
        isLower_def isUpper_def lowerLetters_def upperLetters_def toUpper_def toLower_def)
  with stream parts show ?thesis by simp
qed

text \<open>
  The claim as it is written has the summary lines sorted.  The lines are sorted within
  the block of one \<^verbatim>\<open>Metadata\<close> object only: a score with two such objects
  gives the lines of the first before the lines of the second.
\<close>

theorem scoreToBraille_two_Metadata_counterexample:
  "scoreToBraille sampleCollaborators sampleScoreTwoMetadata Map.empty
     = Inr (''Title: B'' @ [CHR 0x0A] @ ''Composer: A'' @ [CHR 0x0A] @ ''x'')
   \<and> \<not> sorted [''Title: B'', ''Composer: A'']"
  by (simp add: sampleScoreTwoMetadata_def run_defs)


section \<open>A dynamic on its own, under the engine of the spec\<close>

lemma encodeEvents_single_Dynamic:
  "encodeEvents T kw st [Dynamic name]
     = Inr (dynamicsIntroducer T @ concat (map (dynamicUnit T) name))"
  by simp

text \<open>
  Claim C6.  \<^verbatim>\<open>objectToBraille\<close> puts an object that is not a stream into a new
  measure, sets \<^verbatim>\<open>inPlace\<close>, and \<^verbatim>\<open>measureToBraille\<close> turns the heading and the
  first measure number off before it transcribes the measure as a part.  Under the
  engine of the spec and the default configuration, a dynamic on its own is therefore
  transcribed as the dynamics introducer followed by one unit per character of its name
  and nothing else; for \<^verbatim>\<open>"fff"\<close>, the introducer and three times the unit of
  \<^verbatim>\<open>f\<close>.  This holds whatever the glyph tables are.
\<close>

theorem objectToBraille_Dynamic_alone:
  "objectToBraille (specCollaborators T) (Dynamic name) Map.empty
     = Inr (dynamicsIntroducer T @ concat (map (dynamicUnit T) name))
   \<and> objectToBraille (specCollaborators T) (Dynamic ''fff'') Map.empty
     = Inr (dynamicsIntroducer T
            @ dynamicUnit T CHR ''f'' @ dynamicUnit T CHR ''f'' @ dynamicUnit T CHR ''f'')"
proof -
  have alone: "objectToBraille (specCollaborators T) (Dynamic n) Map.empty
     = Inr (dynamicsIntroducer T @ concat (map (dynamicUnit T) n))" for n
    by (simp add: objectToBraille_def measureToBraille_def partToBraille_def translateArgs_def
        kwargs_get_def specCollaborators_def specFindSegments_def specTranscribe_def
        getElementsByClass_def issubclass_def Let_def)
  from alone [of name] alone [of "''fff''"] show ?thesis by simp
qed

theorem objectToBraille_Dynamic_alone_witness:
  "objectToBraille (specCollaborators docstringTables) (Dynamic ''fff'') Map.empty
     = Inr [CHR 0xE2, CHR 0xA0, CHR 0x9C, CHR 0xE2, CHR 0xA0, CHR 0x8B,
            CHR 0xE2, CHR 0xA0, CHR 0x8B, CHR 0xE2, CHR 0xA0, CHR 0x8B]"
  using objectToBraille_Dynamic_alone [of docstringTables "''fff''"]
  by (simp add: docstringTables_def)


section \<open>Further properties of the module\<close>

lemma mset_concat_map_perm:
  assumes "mset xs = mset ys"
  shows "mset (concat (map f xs)) = mset (concat (map f ys))"
proof -
  have "mset (concat (map f zs)) = sum_mset (image_mset (\<lambda>z. mset (f z)) (mset zs))" for zs
    by (induction zs) simp_all
  with assms show ?thesis by simp
qed

text \<open>
  The text of a \<^verbatim>\<open>Metadata\<close> object does not depend on the order in which the
  dictionary \<^verbatim>\<open>_workIds\<close> is iterated: the lines are sorted before they are joined.
\<close>

theorem metadataToString_iteration_order:
  assumes "mset w = mset w'"
  shows "metadataToString (MetadataObj w) = metadataToString (MetadataObj w')"
proof -
  have "mset [workIdLine key v. (key, Some v) \<leftarrow> w]
          = mset [workIdLine key v. (key, Some v) \<leftarrow> w']"
    using assms by (rule mset_concat_map_perm)
  then have "sort [workIdLine key v. (key, Some v) \<leftarrow> w]
          = sort [workIdLine key v. (key, Some v) \<leftarrow> w']"
    by (simp add: properties_for_sort)
  then show ?thesis
    by (simp add: metadataToString_def metadataToString_loop_lines)
qed

theorem metadataToString_iteration_order_witness:
  "mset (workIds sampleMetadata) = mset (workIds sampleMetadataReordered)
   \<and> metadataToString sampleMetadata = metadataToString sampleMetadataReordered
   \<and> metadataToString sampleMetadata = ''Number: 3'' @ [CHR 0x0A] @ ''Title: Sonata I''"
proof -
  have perm: "mset [(''title'', Some ''Sonata I''), (''composer'', None), (''number'', Some ''3'')]
      = mset [(''number'', Some ''3''), (''title'', Some ''Sonata I''),
              (''composer'', None :: string option)]"
    by simp
  from metadataToString_iteration_order [OF perm]
  have "metadataToString sampleMetadata = metadataToString sampleMetadataReordered"
    by (simp add: sampleMetadata_def sampleMetadataReordered_def)
  moreover have "metadataToString sampleMetadata = ''Number: 3'' @ [CHR 0x0A] @ ''Title: Sonata I''"
    by (simp add: sampleMetadata_def run_defs)
  ultimately show ?thesis using perm
    by (simp add: sampleMetadata_def sampleMetadataReordered_def)
qed

lemma partToBraille_loop_all_Inr:
  "map (segmentText c debug) segs = map Inr texts
     \<Longrightarrow> partToBraille_loop c debug segs acc = Inr (acc @ texts)"
proof (induction segs arbitrary: acc texts)
  case Nil
  then show ?case by simp
next
  case (Cons seg segs)
  then obtain t texts' where texts: "texts = t # texts'"
    and t: "segmentText c debug seg = Inr t"
    and rest: "map (segmentText c debug) segs = map Inr texts'"
    by (cases texts) auto
  from t have "partToBraille_loop c debug (seg # segs) acc
                 = partToBraille_loop c debug segs (acc @ [t])"
    by (auto simp: segmentText_def split: sum.splits if_splits)
  with Cons.IH [OF rest] texts show ?case by simp
qed

lemma partToBraille_loop_first_Inl:
  "map (segmentText c debug) segs = map Inr pre @ Inl e # post
     \<Longrightarrow> partToBraille_loop c debug segs acc = Inl e"
proof (induction pre arbitrary: segs acc)
  case Nil
  then obtain seg segs' where "segs = seg # segs'" and "segmentText c debug seg = Inl e"
    by (cases segs) auto
  then show ?case
    by (auto simp: segmentText_def split: sum.splits if_splits)
next
  case (Cons t pre)
  then obtain seg segs' where segs: "segs = seg # segs'"
    and t: "segmentText c debug seg = Inr t"
    and rest: "map (segmentText c debug) segs' = map Inr pre @ Inl e # post"
    by (cases segs) auto
  from t have "partToBraille_loop c debug (seg # segs') acc
                 = partToBraille_loop c debug segs' (acc @ [t])"
    by (auto simp: segmentText_def split: sum.splits if_splits)
  with Cons.IH [OF rest] segs show ?case by simp
qed

text \<open>
  \<^verbatim>\<open>partToBraille\<close> joins the texts of the segments by newlines, in the order in
  which \<^verbatim>\<open>findSegments\<close> returned them.  The text of a segment is its
  transcription, or under \<^verbatim>\<open>debug\<close> its \<^verbatim>\<open>str\<close>, computed after its
  transcription.  The first segment whose text raises ends the call with that exception.
\<close>

theorem partToBraille_joins_segments:
  assumes "(if \<not> truthy (fst (translateArgs kw)) then makeNotation c music21Part
            else Inr music21Part) = Inr partToTranscribe"
    and "findSegments c partToTranscribe kw = Inr allSegments"
  shows
  "(\<forall>texts. map (segmentText c (snd (translateArgs kw))) allSegments = map Inr texts
      \<longrightarrow> partToBraille c music21Part kw = Inr (str_join newline texts))
   \<and> (\<forall>pre e post.
         map (segmentText c (snd (translateArgs kw))) allSegments = map Inr pre @ Inl e # post
      \<longrightarrow> partToBraille c music21Part kw = Inl e)"
  using assms
  by (simp add: partToBraille_unfold transcribeAsIs_def partToBraille_loop_all_Inr
      partToBraille_loop_first_Inl)

theorem partToBraille_joins_segments_witness:
  "findSegments sampleCollaborators sampleUpperStaff [''debug'' \<mapsto> KBool True]
     = Inr [StreamObj Measure [Element ''a''], StreamObj Measure [Element ''b'']]
   \<and> map (segmentText sampleCollaborators (snd (translateArgs [''debug'' \<mapsto> KBool True])))
         [StreamObj Measure [Element ''a''], StreamObj Measure [Element ''b'']]
     = map Inr [''<a>'', ''<b>'']
   \<and> partToBraille sampleCollaborators sampleUpperStaff [''debug'' \<mapsto> KBool True]
     = Inr (''<a>'' @ [CHR 0x0A] @ ''<b>'')"
proof -
  let ?kw = "[''debug'' \<mapsto> KBool True]"
  have renotated: "(if \<not> truthy (fst (translateArgs ?kw))
                    then makeNotation sampleCollaborators sampleUpperStaff
                    else Inr sampleUpperStaff) = Inr sampleUpperStaff"
    by (simp add: sampleCollaborators_def)
  have found: "findSegments sampleCollaborators sampleUpperStaff ?kw
     = Inr [StreamObj Measure [Element ''a''], StreamObj Measure [Element ''b'']]"
    by (simp add: sampleCollaborators_def sampleUpperStaff_def getElementsByClass_def
        issubclass_def)
  have texts: "map (segmentText sampleCollaborators (snd (translateArgs ?kw)))
         [StreamObj Measure [Element ''a''], StreamObj Measure [Element ''b'']]
     = map Inr [''<a>'', ''<b>'']"
    by (simp add: segmentText_def sampleCollaborators_def translateArgs_def kwargs_get_def)
  from partToBraille_joins_segments [OF renotated found] texts
  have "partToBraille sampleCollaborators sampleUpperStaff ?kw
          = Inr (str_join newline [''<a>'', ''<b>''])"
    by blast
  with found texts show ?thesis by (simp add: newline_def)
qed

lemma keyboardPartsToBraille_loop_makeNotation_update:
  "keyboardPartsToBraille_loop (c\<lparr>makeNotation := f\<rparr>) debug pairs acc
     = keyboardPartsToBraille_loop c debug pairs acc"
  by (induction pairs arbitrary: acc) (auto split: sum.splits)

text \<open>
  \<^verbatim>\<open>keyboardPartsToBraille\<close> renotates like \<^verbatim>\<open>partToBraille\<close>.  When
  \<^verbatim>\<open>inPlace\<close> is set, \<^verbatim>\<open>makeNotation\<close> is not called.  When it is not set,
  the upper staff is renotated first and the lower staff second, an exception of either
  call ends the transcription, and the two staves are handed to \<^verbatim>\<open>makeNotation\<close>
  and to nothing else.
\<close>

theorem keyboardPartsToBraille_renotates_unless_inPlace:
  "(truthy (fst (translateArgs kw)) \<longrightarrow>
      (\<forall>f. keyboardPartsToBraille (c\<lparr>makeNotation := f\<rparr>) upper lower kw
             = keyboardPartsToBraille c upper lower kw))
   \<and> (\<not> truthy (fst (translateArgs kw)) \<longrightarrow>
      (\<forall>e. makeNotation c upper = Inl e \<longrightarrow> keyboardPartsToBraille c upper lower kw = Inl e)
      \<and> (\<forall>copy e. makeNotation c upper = Inr copy \<and> makeNotation c lower = Inl e
            \<longrightarrow> keyboardPartsToBraille c upper lower kw = Inl e)
      \<and> (\<forall>upper' lower'.
            makeNotation c upper' = makeNotation c upper
            \<and> makeNotation c lower' = makeNotation c lower
            \<longrightarrow> keyboardPartsToBraille c upper' lower' kw
                = keyboardPartsToBraille c upper lower kw))"
proof -
  obtain inPlace debug where args: "translateArgs kw = (inPlace, debug)"
    by (cases "translateArgs kw")
  show ?thesis
    by (auto simp: keyboardPartsToBraille_def args
        keyboardPartsToBraille_loop_makeNotation_update split: sum.splits)
qed

theorem keyboardPartsToBraille_renotates_unless_inPlace_witness:
  "\<not> truthy (fst (translateArgs Map.empty))
   \<and> makeNotation (renotatingCollaborators
        \<lparr> makeNotation := (\<lambda>s. Inl (CollaboratorException ''no notation'')) \<rparr>)
        sampleUpperStaff
      = Inl (CollaboratorException ''no notation'')
   \<and> keyboardPartsToBraille (renotatingCollaborators
        \<lparr> makeNotation := (\<lambda>s. Inl (CollaboratorException ''no notation'')) \<rparr>)
        sampleUpperStaff sampleLowerStaff Map.empty
      = Inl (CollaboratorException ''no notation'')
   \<and> truthy (fst (translateArgs [''inPlace'' \<mapsto> KBool True]))
   \<and> keyboardPartsToBraille (renotatingCollaborators
        \<lparr> makeNotation := (\<lambda>s. Inl (CollaboratorException ''no notation'')) \<rparr>)
        sampleUpperStaff sampleLowerStaff [''inPlace'' \<mapsto> KBool True]
      = keyboardPartsToBraille renotatingCollaborators
          sampleUpperStaff sampleLowerStaff [''inPlace'' \<mapsto> KBool True]"
proof -
  let ?failing = "renotatingCollaborators
        \<lparr> makeNotation := (\<lambda>s. Inl (CollaboratorException ''no notation'')) \<rparr>"
  have off: "\<not> truthy (fst (translateArgs Map.empty))"
    by (simp add: translateArgs_def kwargs_get_def)
  have on: "truthy (fst (translateArgs [''inPlace'' \<mapsto> KBool True]))"
    by (simp add: translateArgs_def kwargs_get_def)
  have raises: "makeNotation ?failing sampleUpperStaff
                  = Inl (CollaboratorException ''no notation'')"
    by simp
  from off raises
    keyboardPartsToBraille_renotates_unless_inPlace
      [of Map.empty ?failing sampleUpperStaff sampleLowerStaff]
  have first: "keyboardPartsToBraille ?failing sampleUpperStaff sampleLowerStaff Map.empty
                 = Inl (CollaboratorException ''no notation'')"
    by blast
  from on
    keyboardPartsToBraille_renotates_unless_inPlace
      [of "[''inPlace'' \<mapsto> KBool True]" renotatingCollaborators
          sampleUpperStaff sampleLowerStaff]
  have second: "keyboardPartsToBraille ?failing
        sampleUpperStaff sampleLowerStaff [''inPlace'' \<mapsto> KBool True]
      = keyboardPartsToBraille renotatingCollaborators
          sampleUpperStaff sampleLowerStaff [''inPlace'' \<mapsto> KBool True]"
    by blast
  from off on raises first second show ?thesis by blast
qed

text \<open>
  An object that is not a stream is transcribed as the only element of a new measure
  in a new part, without any call of \<^verbatim>\<open>makeNotation\<close>, with the heading and the
  first measure number off unless the caller asked for them.
\<close>

theorem objectToBraille_wraps_object:
  assumes "\<not> isinstance music21Obj (StreamClass Stream)"
  shows "objectToBraille c music21Obj kw
           = transcribeAsIs c (StreamObj Part [StreamObj Measure [music21Obj]])
               ([''showHeading'' \<mapsto> KBool False, ''showFirstMeasureNumber'' \<mapsto> KBool False]
                  ++ kw ++ [''inPlace'' \<mapsto> KBool True])"
proof -
  let ?kw = "kw(''inPlace'' \<mapsto> KBool True)"
  let ?passed = "[''showHeading'' \<mapsto> KBool False, ''showFirstMeasureNumber'' \<mapsto> KBool False]
                  ++ kw ++ [''inPlace'' \<mapsto> KBool True]"
  have in_place: "truthy (fst (translateArgs ?kw))" "truthy (fst (translateArgs ?passed))"
    by (simp_all add: translateArgs_def kwargs_get_def)
  have same: "[''showHeading'' \<mapsto> KBool False, ''showFirstMeasureNumber'' \<mapsto> KBool False]
                ++ ?kw ++ [''inPlace'' \<mapsto> KBool True] = ?passed"
    by (rule ext) (simp add: map_add_def)
  from assms have "objectToBraille c music21Obj kw
      = measureToBraille c (StreamObj Measure [music21Obj]) ?kw"
    by (simp add: objectToBraille_def)
  also from in_place(1) have "\<dots> = partToBraille c (StreamObj Part [StreamObj Measure [music21Obj]])
      ([''showHeading'' \<mapsto> KBool False, ''showFirstMeasureNumber'' \<mapsto> KBool False]
         ++ ?kw ++ [''inPlace'' \<mapsto> KBool True])"
    unfolding measureToBraille_keywords [of c "StreamObj Measure [music21Obj]" ?kw]
    by (simp only: if_False not_True_eq_False sum.case)
  also have "\<dots> = partToBraille c (StreamObj Part [StreamObj Measure [music21Obj]]) ?passed"
    unfolding same by (rule refl)
  also from in_place(2) have "\<dots> = transcribeAsIs c (StreamObj Part [StreamObj Measure [music21Obj]]) ?passed"
    unfolding partToBraille_unfold by (simp only: if_False not_True_eq_False sum.case)
  finally show ?thesis .
qed

theorem objectToBraille_wraps_object_witness:
  "\<not> isinstance (Element ''C'') (StreamClass Stream)
   \<and> objectToBraille renotatingCollaborators (Element ''C'') Map.empty
     = transcribeAsIs renotatingCollaborators
         (StreamObj Part [StreamObj Measure [Element ''C'']])
         ([''showHeading'' \<mapsto> KBool False, ''showFirstMeasureNumber'' \<mapsto> KBool False]
            ++ Map.empty ++ [''inPlace'' \<mapsto> KBool True])
   \<and> objectToBraille renotatingCollaborators (Element ''C'') Map.empty = Inr ''C''"
proof -
  have not_stream: "\<not> isinstance (Element ''C'') (StreamClass Stream)" by simp
  note wrapped = objectToBraille_wraps_object [OF not_stream, of renotatingCollaborators Map.empty]
  have "transcribeAsIs renotatingCollaborators
          (StreamObj Part [StreamObj Measure [Element ''C'']])
          ([''showHeading'' \<mapsto> KBool False, ''showFirstMeasureNumber'' \<mapsto> KBool False]
             ++ Map.empty ++ [''inPlace'' \<mapsto> KBool True]) = Inr ''C''"
    by (simp add: transcribeAsIs_def renotatingCollaborators_def run_defs)
  with not_stream wrapped show ?thesis by simp
qed

end
